theory Spec2Isabelle
  imports Complex_Main
begin

section \<open>The HTTP binding: session registry and request handler\<close>

text \<open>
  Source: \<^verbatim>\<open>createHttpHandler\<close> (transport part of src/index.ts) and the \<^verbatim>\<open>/mcp\<close> route of
  the Express server. The handler keeps one \<^verbatim>\<open>Map<string, StreamableHTTPServerTransport>\<close>.
  A transport object is identified by the order in which it was constructed; the map is an
  association list in insertion order with unique keys, as a JavaScript \<^verbatim>\<open>Map\<close> is.
\<close>

type_synonym transport = nat

type_synonym registry = "(string \<times> transport) list"

definition transports_has :: "registry \<Rightarrow> string \<Rightarrow> bool" where
  "transports_has m k = (map_of m k \<noteq> None)"

definition transports_get :: "registry \<Rightarrow> string \<Rightarrow> transport option" where
  "transports_get m k = map_of m k"

fun transports_set :: "registry \<Rightarrow> string \<Rightarrow> transport \<Rightarrow> registry" where
  "transports_set [] k v = [(k, v)]"
| "transports_set ((k', v') # m) k v =
     (if k' = k then (k, v) # m else (k', v') # transports_set m k v)"

definition transports_delete :: "registry \<Rightarrow> string \<Rightarrow> registry" where
  "transports_delete m k = filter (\<lambda>e. fst e \<noteq> k) m"

text \<open>
  What the SDK's transport does during one call of \<^verbatim>\<open>transport.handleRequest\<close> is not part
  of the repository. It is an input of the model: the callbacks the transport invokes (in
  order), what it writes to the response, and whether the returned promise rejects.
  \<^verbatim>\<open>SessionInitialized sid\<close> is \<^verbatim>\<open>onsessioninitialized(sid)\<close> with the identifier obtained
  from \<^verbatim>\<open>sessionIdGenerator\<close> (\<^verbatim>\<open>crypto.randomUUID()\<close>); \<^verbatim>\<open>TransportClosed\<close> is \<^verbatim>\<open>onclose()\<close>.
\<close>

datatype callback = SessionInitialized string | TransportClosed

record handle_request =
  callbacks :: "callback list"
  responds :: "(nat \<times> string) option"
  rejects :: "string option"

record sdk =
  connectRejects :: "string option"
  handleRequest :: handle_request

record request =
  httpMethod :: string
  mcpSessionId :: "string option"
  reqBody :: string

record response =
  headersSent :: bool
  statusCode :: nat
  payload :: string

record handler_state =
  transports :: registry
  constructed :: nat

definition fresh_response :: response where
  "fresh_response = \<lparr>headersSent = False, statusCode = 200, payload = ''''\<rparr>"

definition initial_state :: handler_state where
  "initial_state = \<lparr>transports = [], constructed = 0\<rparr>"

text \<open>\<^verbatim>\<open>res.status(code).json({ error: msg })\<close>\<close>

definition status_json :: "nat \<Rightarrow> string \<Rightarrow> response \<Rightarrow> response" where
  "status_json code msg res = res\<lparr>headersSent := True, statusCode := code, payload := msg\<rparr>"

text \<open>JavaScript truthiness of a value of type \<^verbatim>\<open>string | undefined\<close>.\<close>

definition truthy :: "string option \<Rightarrow> bool" where
  "truthy v = (case v of None \<Rightarrow> False | Some s \<Rightarrow> s \<noteq> [])"

text \<open>\<^verbatim>\<open>onsessioninitialized: (id) => { transports.set(id, transport); }\<close>\<close>

definition onsessioninitialized :: "transport \<Rightarrow> string \<Rightarrow> registry \<Rightarrow> registry" where
  "onsessioninitialized t sid m = transports_set m sid t"

text \<open>
  \<^verbatim>\<open>transport.onclose = () => { const id = [...transports.entries()].find(([, t]) => t === transport)?.[0];
  if (id) transports.delete(id); }\<close>
\<close>

definition onclose :: "transport \<Rightarrow> registry \<Rightarrow> registry" where
  "onclose t m =
     (case find (\<lambda>e. snd e = t) m of
        None \<Rightarrow> m
      | Some e \<Rightarrow> if fst e \<noteq> [] then transports_delete m (fst e) else m)"

fun fire :: "transport \<Rightarrow> callback \<Rightarrow> registry \<Rightarrow> registry" where
  "fire t (SessionInitialized sid) m = onsessioninitialized t sid m"
| "fire t TransportClosed m = onclose t m"

fun fire_all :: "transport \<Rightarrow> callback list \<Rightarrow> registry \<Rightarrow> registry" where
  "fire_all t [] m = m"
| "fire_all t (c # cs) m = fire_all t cs (fire t c m)"

text \<open>
  One call \<^verbatim>\<open>await transport.handleRequest(req, res, ...)\<close>: the callbacks run against the
  registry, the transport may write the response, and the call resolves (\<open>None\<close>) or rejects
  with an error message.
\<close>

definition transport_handleRequest ::
  "transport \<Rightarrow> handle_request \<Rightarrow> handler_state \<Rightarrow> response
     \<Rightarrow> handler_state \<times> response \<times> string option" where
  "transport_handleRequest t b st res =
     (st\<lparr>transports := fire_all t (callbacks b) (transports st)\<rparr>,
      (case responds b of
         None \<Rightarrow> res
       | Some w \<Rightarrow> \<lparr>headersSent = True, statusCode = fst w, payload = snd w\<rparr>),
      rejects b)"

text \<open>
  The request handler returned by \<^verbatim>\<open>createHttpHandler\<close>. The result is the state of the
  registry afterwards, the response as written so far, and \<open>None\<close> when the handler's promise
  resolves or \<open>Some err\<close> when it rejects.
\<close>

definition createHttpHandler ::
  "handler_state \<Rightarrow> request \<Rightarrow> sdk \<Rightarrow> handler_state \<times> response \<times> string option" where
  "createHttpHandler st req env =
     (let sessionId = mcpSessionId req in
      if httpMethod req = ''POST'' then
        (let transport = constructed st;
             st1 = st\<lparr>constructed := Suc (constructed st)\<rparr>
         in case connectRejects env of
              Some err \<Rightarrow> (st1, fresh_response, Some err)
            | None \<Rightarrow> transport_handleRequest transport (handleRequest env) st1 fresh_response)
      else if httpMethod req = ''GET'' then
        (if \<not> truthy sessionId \<or> \<not> transports_has (transports st) (the sessionId) then
           (st, status_json 400 ''Invalid or missing session ID'' fresh_response, None)
         else
           transport_handleRequest (the (transports_get (transports st) (the sessionId)))
             (handleRequest env) st fresh_response)
      else if httpMethod req = ''DELETE'' then
        (if truthy sessionId \<and> transports_has (transports st) (the sessionId) then
           (case transport_handleRequest (the (transports_get (transports st) (the sessionId)))
                   (handleRequest env) st fresh_response of
              (st', res, None) \<Rightarrow>
                (st'\<lparr>transports := transports_delete (transports st') (the sessionId)\<rparr>, res, None)
            | (st', res, Some err) \<Rightarrow> (st', res, Some err))
         else
           (st, status_json 400 ''Invalid or missing session ID'' fresh_response, None))
      else
        (st, status_json 405 ''Method not allowed'' fresh_response, None))"

text \<open>
  The Express route: \<^verbatim>\<open>app.all('/mcp', (req, res) => { mcpHandler(req, res).catch((err) => {
  if (!res.headersSent) res.status(500).json({ error: 'Internal server error' }); }); })\<close>
\<close>

definition mcp_route :: "handler_state \<Rightarrow> request \<Rightarrow> sdk \<Rightarrow> handler_state \<times> response" where
  "mcp_route st req env =
     (case createHttpHandler st req env of
        (st', res, None) \<Rightarrow> (st', res)
      | (st', res, Some err) \<Rightarrow>
          (st', if \<not> headersSent res then status_json 500 ''Internal server error'' res else res))"

text \<open>A run of the server: requests handled one after the other, from a given state.\<close>

fun run :: "handler_state \<Rightarrow> (request \<times> sdk) list \<Rightarrow> handler_state" where
  "run st [] = st"
| "run st (x # xs) = run (fst (mcp_route st (fst x) (snd x))) xs"

text \<open>The identifiers the transports hand to \<^verbatim>\<open>onsessioninitialized\<close> in a run.\<close>

fun issued_ids :: "callback list \<Rightarrow> string list" where
  "issued_ids [] = []"
| "issued_ids (SessionInitialized sid # cs) = sid # issued_ids cs"
| "issued_ids (TransportClosed # cs) = issued_ids cs"

definition issued :: "(request \<times> sdk) list \<Rightarrow> string list" where
  "issued tr = concat (map (\<lambda>x. issued_ids (callbacks (handleRequest (snd x)))) tr)"

text \<open>
  The registry invariant: no two entries share an identifier, and every registered transport
  is one the handler constructed.
\<close>

definition registry_ok :: "handler_state \<Rightarrow> bool" where
  "registry_ok st \<longleftrightarrow>
     distinct (map fst (transports st)) \<and> list_all (\<lambda>e. snd e < constructed st) (transports st)"

section \<open>Process start-up\<close>

text \<open>
  Source: the top level of the stdio server (src/index.ts, version 2.1.0), \<^verbatim>\<open>createServer\<close>,
  \<^verbatim>\<open>getTransportMode\<close> and the direct-execution block (version 3.0.0), and the Express entry
  point. A start-up is the list of the actions the process performs, in order, up to the
  point where it either has called \<^verbatim>\<open>process.exit\<close> or is ready to serve requests.
\<close>

record process_env =
  TUTELIQ_API_KEY :: "string option"
  TUTELIQ_MCP_TRANSPORT :: "string option"
  PORT :: "string option"

datatype action =
    ConsoleError string
  | ProcessExit nat
  | NewTuteliq string
  | NewServer string
  | RegisterTools
  | ConnectStdio
  | Listen string

definition required_message :: string where
  "required_message = ''Error: TUTELIQ_API_KEY environment variable is required''"

text \<open>
  Version 2.1.0: \<^verbatim>\<open>const apiKey = process.env.TUTELIQ_API_KEY; if (!apiKey) { console.error(...);
  process.exit(1); } const client = new Tuteliq(apiKey); ... main().catch((error) => {
  console.error('Fatal error:', error); process.exit(1); });\<close> The second argument is the error
  with which \<^verbatim>\<open>server.connect\<close> rejects, if it does.
\<close>

definition index_v2 :: "process_env \<Rightarrow> string option \<Rightarrow> action list" where
  "index_v2 env connectError =
     (let apiKey = TUTELIQ_API_KEY env in
      if \<not> truthy apiKey then [ConsoleError required_message, ProcessExit 1]
      else [NewTuteliq (the apiKey), NewServer ''2.1.0'', ConnectStdio] @
           (case connectError of
              None \<Rightarrow> [ConsoleError ''Tuteliq MCP server running on stdio'']
            | Some err \<Rightarrow> [ConsoleError (''Fatal error: '' @ err), ProcessExit 1]))"

text \<open>
  Version 3.0.0, \<^verbatim>\<open>createServer\<close>: the actions performed, and whether a server was returned
  (\<open>False\<close> when the process exited inside the call).
\<close>

definition createServer :: "process_env \<Rightarrow> action list \<times> bool" where
  "createServer env =
     (let apiKey = TUTELIQ_API_KEY env in
      if \<not> truthy apiKey then ([ConsoleError required_message, ProcessExit 1], False)
      else ([NewTuteliq (the apiKey), NewServer ''3.0.0'', RegisterTools], True))"

text \<open>
  \<^verbatim>\<open>toLowerCase\<close> on the ASCII letters (the only characters that can lower-case to the
  letters of \<^verbatim>\<open>stdio\<close>): an upper-case letter has code 64 + n with n from 1 to 26, and its
  lower-case form has bit 5 set.
\<close>

fun lowerChar :: "char \<Rightarrow> char" where
  "lowerChar (Char b0 b1 b2 b3 b4 b5 b6 b7) =
     (let n = (of_bool b0 + 2 * of_bool b1 + 4 * of_bool b2 + 8 * of_bool b3 + 16 * of_bool b4 :: nat)
      in if \<not> b7 \<and> b6 \<and> \<not> b5 \<and> 1 \<le> n \<and> n \<le> 26
         then Char b0 b1 b2 b3 b4 True b6 b7
         else Char b0 b1 b2 b3 b4 b5 b6 b7)"

definition toLowerCase :: "string \<Rightarrow> string" where
  "toLowerCase s = map lowerChar s"

definition getTransportMode :: "process_env \<Rightarrow> string" where
  "getTransportMode env =
     (if map_option toLowerCase (TUTELIQ_MCP_TRANSPORT env) = Some ''stdio'' then ''stdio''
      else ''http'')"

text \<open>
  The direct-execution block of version 3.0.0: \<^verbatim>\<open>if (getTransportMode() === 'stdio') { const
  server = createServer(); startStdio(server).catch((error) => { console.error('Fatal error:',
  error); process.exit(1); }); }\<close>
\<close>

definition index_v3 :: "process_env \<Rightarrow> string option \<Rightarrow> action list" where
  "index_v3 env connectError =
     (if getTransportMode env = ''stdio'' then
        (case createServer env of
           (acts, False) \<Rightarrow> acts
         | (acts, True) \<Rightarrow>
             acts @ [ConnectStdio] @
             (case connectError of
                None \<Rightarrow> [ConsoleError ''Tuteliq MCP server running on stdio'']
              | Some err \<Rightarrow> [ConsoleError (''Fatal error: '' @ err), ProcessExit 1]))
      else [])"

text \<open>
  The Express entry point. Importing \<^verbatim>\<open>./src/index.js\<close> runs the direct-execution block
  above first: in stdio mode it creates a server and starts to connect it, and the outcome of
  the connection arrives after the rest of the module has run. Then: \<^verbatim>\<open>const port =
  parseInt(process.env.PORT || '3001', 10); ... const mcpServer = createServer(); const
  mcpHandler = createHttpHandler(mcpServer); ... app.listen(port, ...)\<close>. \<open>Listen\<close> carries
  the port text before \<^verbatim>\<open>parseInt\<close>.
\<close>

definition server_ts :: "process_env \<Rightarrow> string option \<Rightarrow> action list" where
  "server_ts env connectError =
     (let port = (if truthy (PORT env) then the (PORT env) else ''3001'') in
      if getTransportMode env = ''stdio'' then
        (case createServer env of
           (acts, False) \<Rightarrow> acts
         | (acts, True) \<Rightarrow>
             acts @ [ConnectStdio] @ fst (createServer env) @ [Listen port] @
             (case connectError of
                None \<Rightarrow> [ConsoleError ''Tuteliq MCP server running on stdio'']
              | Some err \<Rightarrow> [ConsoleError (''Fatal error: '' @ err), ProcessExit 1]))
      else
        (case createServer env of
           (acts, False) \<Rightarrow> acts
         | (acts, True) \<Rightarrow> acts @ [Listen port]))"

text \<open>A process serves requests once it has connected the stdio transport or listens.\<close>

fun serves :: "action \<Rightarrow> bool" where
  "serves ConnectStdio = True"
| "serves (Listen p) = True"
| "serves a = False"

section \<open>The tool dispatcher of the stdio server\<close>

text \<open>
  Source: the \<^verbatim>\<open>tools\<close> array and the \<^verbatim>\<open>CallToolRequestSchema\<close> handler of src/index.ts
  (version 2.1.0). Values are JavaScript values as they arrive from JSON, with \<^verbatim>\<open>undefined\<close>
  for a property that is not there and a constructor for the \<^verbatim>\<open>Buffer\<close> read from a file.
\<close>

datatype jsvalue =
    JUndefined
  | JNull
  | JBool bool
  | JNum real
  | JStr string
  | JBuffer string
  | JArr "jsvalue list"
  | JObj "(string \<times> jsvalue) list"

type_synonym arguments = "(string \<times> jsvalue) list"

text \<open>\<^verbatim>\<open>args.k\<close> on the arguments object.\<close>

definition arg :: "arguments \<Rightarrow> string \<Rightarrow> jsvalue" where
  "arg args k = (case map_of args k of None \<Rightarrow> JUndefined | Some v \<Rightarrow> v)"

text \<open>JavaScript truthiness, as used by \<^verbatim>\<open>||\<close> and the conditional operator.\<close>

fun js_truthy :: "jsvalue \<Rightarrow> bool" where
  "js_truthy JUndefined = False"
| "js_truthy JNull = False"
| "js_truthy (JBool b) = b"
| "js_truthy (JNum n) = (n \<noteq> 0)"
| "js_truthy (JStr s) = (s \<noteq> [])"
| "js_truthy (JBuffer s) = True"
| "js_truthy (JArr xs) = True"
| "js_truthy (JObj fs) = True"

definition js_or :: "jsvalue \<Rightarrow> jsvalue \<Rightarrow> jsvalue" where
  "js_or a b = (if js_truthy a then a else b)"

text \<open>
  What a \<^verbatim>\<open>catch\<close> can receive: an \<^verbatim>\<open>Error\<close> object with its message, or any other value.
  \<^verbatim>\<open>const message = error instanceof Error ? error.message : 'Unknown error'\<close>
\<close>

datatype thrown = ErrorObject string | OtherValue

fun message :: "thrown \<Rightarrow> string" where
  "message (ErrorObject m) = m"
| "message OtherValue = ''Unknown error''"

text \<open>The result of \<^verbatim>\<open>client.analyzeVoice\<close>, as far as the handler reads it.\<close>

record segment =
  seg_start :: real
  seg_end :: real
  seg_text :: string

record transcription =
  tr_text :: string
  language :: string
  duration :: real
  segments :: "segment list"

record bullying_analysis =
  is_bullying :: bool
  bullying_risk_score :: real

record unsafe_analysis =
  unsafe :: bool
  unsafe_risk_score :: real

record grooming_analysis =
  grooming_risk :: string
  grooming_risk_score :: real

record emotions_analysis =
  dominant_emotions :: "string list"
  trend :: string

record voice_analysis =
  bullying :: "bullying_analysis option"
  unsafe_content :: "unsafe_analysis option"
  grooming :: "grooming_analysis option"
  emotions :: "emotions_analysis option"

record voice_result =
  overall_severity :: string
  overall_risk_score :: real
  transcription :: transcription
  analysis :: voice_analysis

text \<open>
  The surroundings of the dispatcher, none of it code of the repository: the remote client
  (a method name and the arguments of the call, answering with a result or throwing), the
  file system, the \<^verbatim>\<open>TypeError\<close> the runtime throws for a property access on \<^verbatim>\<open>undefined\<close>
  or a call of something that is not a function, \<^verbatim>\<open>Number.prototype.toFixed\<close>, the
  multiplication of two doubles with its rounding, the properties every plain object inherits
  from \<^verbatim>\<open>Object.prototype\<close> (for a property name, the text a template literal prints for the
  inherited value, if there is one), and the Markdown rendering of the results of the tools
  other than \<^verbatim>\<open>analyze_voice\<close>, which no claim is about (given the tool name, the arguments
  and the client's result).
\<close>

record 'r tool_env =
  client :: "string \<Rightarrow> jsvalue list \<Rightarrow> thrown + 'r"
  analyzeVoice :: "jsvalue list \<Rightarrow> thrown + voice_result"
  readFileSync :: "jsvalue \<Rightarrow> thrown + string"
  typeError :: thrown
  toFixed :: "nat \<Rightarrow> real \<Rightarrow> string"
  multiply :: "real \<Rightarrow> real \<Rightarrow> real"
  inherited :: "string \<Rightarrow> string option"
  render :: "string \<Rightarrow> arguments \<Rightarrow> 'r \<Rightarrow> thrown + string"

text \<open>
  The \<^verbatim>\<open>tools\<close> array answered to \<^verbatim>\<open>ListToolsRequestSchema\<close>: the name of each tool with the
  \<^verbatim>\<open>required\<close> list of its input schema, in the order of the source.
\<close>

definition tools :: "(string \<times> string list) list" where
  "tools =
    [(''detect_bullying'', [''content'']),
     (''detect_grooming'', [''messages'']),
     (''detect_unsafe'', [''content'']),
     (''analyze'', [''content'']),
     (''analyze_emotions'', [''content'']),
     (''get_action_plan'', [''situation'']),
     (''generate_report'', [''messages'']),
     (''analyze_voice'', [''file_path'']),
     (''analyze_image'', [''file_path'']),
     (''list_webhooks'', []),
     (''create_webhook'', [''name'', ''url'', ''events'']),
     (''update_webhook'', [''id'']),
     (''delete_webhook'', [''id'']),
     (''test_webhook'', [''id'']),
     (''regenerate_webhook_secret'', [''id'']),
     (''get_pricing'', []),
     (''get_pricing_details'', []),
     (''get_usage_history'', []),
     (''get_usage_by_tool'', []),
     (''get_usage_monthly'', []),
     (''delete_account_data'', []),
     (''export_account_data'', []),
     (''record_consent'', [''consent_type'', ''version'']),
     (''get_consent_status'', []),
     (''withdraw_consent'', [''type'']),
     (''rectify_data'', [''collection'', ''document_id'', ''fields'']),
     (''get_audit_logs'', []),
     (''log_breach'', [''title'', ''description'', ''severity'', ''affected_user_ids'',
                       ''data_categories'', ''reported_by'']),
     (''list_breaches'', []),
     (''get_breach'', [''id'']),
     (''update_breach_status'', [''id'', ''status''])]"

text \<open>\<^verbatim>\<open>filePath.split('/').pop() || filePath\<close>\<close>

definition filenameFromPath :: "string \<Rightarrow> string" where
  "filenameFromPath filePath =
     (let popped = rev (takeWhile (\<lambda>c. c \<noteq> CHR ''/'') (rev filePath))
      in if popped \<noteq> [] then popped else filePath)"

text \<open>
  \<^verbatim>\<open>(args.messages as Array<...>).map((m) => ({ k1: m.k1, k2: m.k2 }))\<close>: a property access
  on \<^verbatim>\<open>undefined\<close> or \<^verbatim>\<open>null\<close> throws, and so does the call of \<^verbatim>\<open>map\<close> on a value that is not
  an array; a property of any other value that is not an object is \<^verbatim>\<open>undefined\<close>.
\<close>

fun member :: "thrown \<Rightarrow> jsvalue \<Rightarrow> string \<Rightarrow> thrown + jsvalue" where
  "member te JUndefined k = Inl te"
| "member te JNull k = Inl te"
| "member te (JObj fs) k = Inr (case map_of fs k of None \<Rightarrow> JUndefined | Some v \<Rightarrow> v)"
| "member te v k = Inr JUndefined"

fun pick :: "thrown \<Rightarrow> string \<Rightarrow> string \<Rightarrow> jsvalue list \<Rightarrow> thrown + jsvalue list" where
  "pick te k1 k2 [] = Inr []"
| "pick te k1 k2 (m # ms) =
     (case member te m k1 of
        Inl e \<Rightarrow> Inl e
      | Inr v1 \<Rightarrow>
          (case member te m k2 of
             Inl e \<Rightarrow> Inl e
           | Inr v2 \<Rightarrow>
               (case pick te k1 k2 ms of
                  Inl e \<Rightarrow> Inl e
                | Inr rest \<Rightarrow> Inr (JObj [(k1, v1), (k2, v2)] # rest))))"

definition map_messages :: "thrown \<Rightarrow> string \<Rightarrow> string \<Rightarrow> jsvalue \<Rightarrow> thrown + jsvalue" where
  "map_messages te k1 k2 v =
     (case v of
        JArr ms \<Rightarrow> (case pick te k1 k2 ms of Inl e \<Rightarrow> Inl e | Inr xs \<Rightarrow> Inr (JArr xs))
      | _ \<Rightarrow> Inl te)"

text \<open>
  The statements of a \<^verbatim>\<open>case\<close> up to its call of the client: the method called and the
  arguments passed, or what was thrown before the call. \<open>None\<close> is the \<^verbatim>\<open>default\<close> branch.
\<close>

definition object_of :: "arguments \<Rightarrow> string list \<Rightarrow> jsvalue" where
  "object_of args ks = JObj (map (\<lambda>k. (k, arg args k)) ks)"

definition read_file :: "'r tool_env \<Rightarrow> arguments \<Rightarrow> thrown + jsvalue \<times> jsvalue" where
  "read_file env args =
     (let filePath = arg args ''file_path'' in
      case readFileSync env filePath of
        Inl e \<Rightarrow> Inl e
      | Inr buffer \<Rightarrow>
          (case filePath of
             JStr p \<Rightarrow> Inr (JBuffer buffer, JStr (filenameFromPath p))
           | _ \<Rightarrow> Inl (typeError env)))"

definition client_call ::
  "'r tool_env \<Rightarrow> string \<Rightarrow> arguments \<Rightarrow> (thrown + string \<times> jsvalue list) option" where
  "client_call env name args =
    (if name = ''detect_bullying'' then
       Some (Inr (''detectBullying'', [object_of args [''content'', ''context'']]))
     else if name = ''detect_grooming'' then
       Some (case map_messages (typeError env) ''role'' ''content'' (arg args ''messages'') of
               Inl e \<Rightarrow> Inl e
             | Inr messages \<Rightarrow>
                 Inr (''detectGrooming'',
                      [JObj [(''messages'', messages), (''childAge'', arg args ''childAge'')]]))
     else if name = ''detect_unsafe'' then
       Some (Inr (''detectUnsafe'', [object_of args [''content'', ''context'']]))
     else if name = ''analyze'' then
       Some (Inr (''analyze'', [object_of args [''content'', ''include'']]))
     else if name = ''analyze_emotions'' then
       Some (Inr (''analyzeEmotions'', [object_of args [''content'']]))
     else if name = ''get_action_plan'' then
       Some (Inr (''getActionPlan'', [object_of args [''situation'', ''childAge'', ''audience'', ''severity'']]))
     else if name = ''generate_report'' then
       Some (case map_messages (typeError env) ''sender'' ''content'' (arg args ''messages'') of
               Inl e \<Rightarrow> Inl e
             | Inr messages \<Rightarrow>
                 Inr (''generateReport'',
                      [JObj [(''messages'', messages), (''childAge'', arg args ''childAge''),
                             (''incident'',
                              if js_truthy (arg args ''incidentType'')
                              then JObj [(''type'', arg args ''incidentType'')] else JUndefined)]]))
     else if name = ''analyze_voice'' then
       Some (case read_file env args of
               Inl e \<Rightarrow> Inl e
             | Inr (buffer, filename) \<Rightarrow>
                 Inr (''analyzeVoice'',
                      [JObj [(''file'', buffer), (''filename'', filename),
                             (''analysisType'', js_or (arg args ''analysis_type'') (JStr ''all'')),
                             (''language'', arg args ''language''),
                             (''childAge'', arg args ''child_age'')]]))
     else if name = ''analyze_image'' then
       Some (case read_file env args of
               Inl e \<Rightarrow> Inl e
             | Inr (buffer, filename) \<Rightarrow>
                 Inr (''analyzeImage'',
                      [JObj [(''file'', buffer), (''filename'', filename),
                             (''analysisType'', js_or (arg args ''analysis_type'') (JStr ''all''))]]))
     else if name = ''list_webhooks'' then Some (Inr (''listWebhooks'', []))
     else if name = ''create_webhook'' then
       Some (Inr (''createWebhook'', [object_of args [''name'', ''url'', ''events'']]))
     else if name = ''update_webhook'' then
       Some (Inr (''updateWebhook'',
                  [arg args ''id'',
                   JObj [(''name'', arg args ''name''), (''url'', arg args ''url''),
                         (''events'', arg args ''events''), (''isActive'', arg args ''is_active'')]]))
     else if name = ''delete_webhook'' then Some (Inr (''deleteWebhook'', [arg args ''id'']))
     else if name = ''test_webhook'' then Some (Inr (''testWebhook'', [arg args ''id'']))
     else if name = ''regenerate_webhook_secret'' then
       Some (Inr (''regenerateWebhookSecret'', [arg args ''id'']))
     else if name = ''get_pricing'' then Some (Inr (''getPricing'', []))
     else if name = ''get_pricing_details'' then Some (Inr (''getPricingDetails'', []))
     else if name = ''get_usage_history'' then Some (Inr (''getUsageHistory'', [arg args ''days'']))
     else if name = ''get_usage_by_tool'' then Some (Inr (''getUsageByTool'', [arg args ''date'']))
     else if name = ''get_usage_monthly'' then Some (Inr (''getUsageMonthly'', []))
     else if name = ''delete_account_data'' then Some (Inr (''deleteAccountData'', []))
     else if name = ''export_account_data'' then Some (Inr (''exportAccountData'', []))
     else if name = ''record_consent'' then
       Some (Inr (''recordConsent'', [object_of args [''consent_type'', ''version'']]))
     else if name = ''get_consent_status'' then
       Some (Inr (''getConsentStatus'', [arg args ''type'']))
     else if name = ''withdraw_consent'' then Some (Inr (''withdrawConsent'', [arg args ''type'']))
     else if name = ''rectify_data'' then
       Some (Inr (''rectifyData'', [object_of args [''collection'', ''document_id'', ''fields'']]))
     else if name = ''get_audit_logs'' then
       Some (Inr (''getAuditLogs'', [object_of args [''action'', ''limit'']]))
     else if name = ''log_breach'' then
       Some (Inr (''logBreach'',
                  [object_of args [''title'', ''description'', ''severity'', ''affected_user_ids'',
                                ''data_categories'', ''reported_by'']]))
     else if name = ''list_breaches'' then
       Some (Inr (''listBreaches'', [object_of args [''status'', ''limit'']]))
     else if name = ''get_breach'' then Some (Inr (''getBreach'', [arg args ''id'']))
     else if name = ''update_breach_status'' then
       Some (Inr (''updateBreachStatus'',
                  [arg args ''id'', object_of args [''status'', ''notification_status'', ''notes'']]))
     else None)"

section \<open>The text rendered by \<^verbatim>\<open>analyze_voice\<close>\<close>

text \<open>
  Source: the \<^verbatim>\<open>analyze_voice\<close> case of src/index.ts (version 2.1.0, with the emoji tables at
  the top of that file) and the \<^verbatim>\<open>analyze_voice\<close> handler of src/tools/media.ts (with the
  tables of src/formatters.ts). The two templates have the same shape and differ in the
  characters outside ASCII: media.ts and formatters.ts write them as escapes, index.ts holds
  other characters in their place. Strings are UTF-8 byte sequences, and each version has its
  own bytes, read from its source file.
\<close>

definition nl :: string where
  "nl = [CHR 0x0A]"

record glyphs =
  microphone :: string
  check_mark :: string
  warning_sign :: string
  en_dash :: string
  severityEmoji :: "(string \<times> string) list"
  trendEmoji :: "(string \<times> string) list"

text \<open>The characters of src/index.ts, version 2.1.0, byte for byte.\<close>

definition glyphs_v2 :: glyphs where
  "glyphs_v2 =
     \<lparr>microphone = [CHR 0xEF, CHR 0xA3, CHR 0xBF, CHR 0xC3, CHR 0xBC, CHR 0xC3, CHR 0xA9, CHR 0xC3, CHR 0xB4, CHR 0xC3, CHR 0x94, CHR 0xE2, CHR 0x88, CHR 0x8F, CHR 0xC3, CHR 0xA8],
      check_mark = [CHR 0xE2, CHR 0x80, CHR 0x9A, CHR 0xC3, CHR 0xBA, CHR 0xC3, CHR 0x96],
      warning_sign = [CHR 0xE2, CHR 0x80, CHR 0x9A, CHR 0xC3, CHR 0xB6, CHR 0xE2, CHR 0x80, CHR 0xA0, CHR 0xC3, CHR 0x94, CHR 0xE2, CHR 0x88, CHR 0x8F, CHR 0xC3, CHR 0xA8],
      en_dash = [CHR 0xE2, CHR 0x80, CHR 0x9A, CHR 0xC3, CHR 0x84, CHR 0xC3, CHR 0xAC],
      severityEmoji =
        [(''low'', [CHR 0xEF, CHR 0xA3, CHR 0xBF, CHR 0xC3, CHR 0xBC, CHR 0xC3, CHR 0xBC, CHR 0xC2, CHR 0xB0]),
         (''medium'', [CHR 0xEF, CHR 0xA3, CHR 0xBF, CHR 0xC3, CHR 0xBC, CHR 0xC3, CHR 0xBC, CHR 0xE2, CHR 0x80, CHR 0xA0]),
         (''high'', [CHR 0xEF, CHR 0xA3, CHR 0xBF, CHR 0xC3, CHR 0xBC, CHR 0xC3, CHR 0xAE, CHR 0xC2, CHR 0xA5]),
         (''critical'', [CHR 0xE2, CHR 0x80, CHR 0x9A, CHR 0xC3, CHR 0xB5, CHR 0xC3, CHR 0xAE])],
      trendEmoji =
        [(''improving'', [CHR 0xEF, CHR 0xA3, CHR 0xBF, CHR 0xC3, CHR 0xBC, CHR 0xC3, CHR 0xAC, CHR 0xC3, CHR 0xA0]),
         (''stable'', [CHR 0xE2, CHR 0x80, CHR 0x9A, CHR 0xC3, CHR 0xBB, CHR 0xC2, CHR 0xB0, CHR 0xC3, CHR 0x94, CHR 0xE2, CHR 0x88, CHR 0x8F, CHR 0xC3, CHR 0xA8]),
         (''worsening'', [CHR 0xEF, CHR 0xA3, CHR 0xBF, CHR 0xC3, CHR 0xBC, CHR 0xC3, CHR 0xAC, CHR 0xC3, CHR 0xA2])]\<rparr>"

text \<open>
  The characters of src/tools/media.ts and src/formatters.ts: \<^verbatim>\<open>\u{1F399}\uFE0F\<close>,
  \<^verbatim>\<open>\u2705\<close>, \<^verbatim>\<open>\u26A0\uFE0F\<close>, \<^verbatim>\<open>\u2013\<close>, and the tables \<^verbatim>\<open>\u{1F7E1}\<close>, \<^verbatim>\<open>\u{1F7E0}\<close>,
  \<^verbatim>\<open>\u{1F534}\<close>, \<^verbatim>\<open>\u26D4\<close> and \<^verbatim>\<open>\u{1F4C8}\<close>, \<^verbatim>\<open>\u27A1\uFE0F\<close>, \<^verbatim>\<open>\u{1F4C9}\<close>.
\<close>

definition glyphs_v3 :: glyphs where
  "glyphs_v3 =
     \<lparr>microphone = [CHR 0xF0, CHR 0x9F, CHR 0x8E, CHR 0x99, CHR 0xEF, CHR 0xB8, CHR 0x8F],
      check_mark = [CHR 0xE2, CHR 0x9C, CHR 0x85],
      warning_sign = [CHR 0xE2, CHR 0x9A, CHR 0xA0, CHR 0xEF, CHR 0xB8, CHR 0x8F],
      en_dash = [CHR 0xE2, CHR 0x80, CHR 0x93],
      severityEmoji =
        [(''low'', [CHR 0xF0, CHR 0x9F, CHR 0x9F, CHR 0xA1]),
         (''medium'', [CHR 0xF0, CHR 0x9F, CHR 0x9F, CHR 0xA0]),
         (''high'', [CHR 0xF0, CHR 0x9F, CHR 0x94, CHR 0xB4]),
         (''critical'', [CHR 0xE2, CHR 0x9B, CHR 0x94])],
      trendEmoji =
        [(''improving'', [CHR 0xF0, CHR 0x9F, CHR 0x93, CHR 0x88]),
         (''stable'', [CHR 0xE2, CHR 0x9E, CHR 0xA1, CHR 0xEF, CHR 0xB8, CHR 0x8F]),
         (''worsening'', [CHR 0xF0, CHR 0x9F, CHR 0x93, CHR 0x89])]\<rparr>"

text \<open>
  \<^verbatim>\<open>table[key] || fallback\<close> on a plain object whose own values are strings: an own property
  is found first, then a property inherited from \<^verbatim>\<open>Object.prototype\<close> (a function or an
  object, always truthy, printed by the template as the runtime prints it), and only when
  neither exists, or the own value is the empty string, the fallback is taken.
\<close>

definition lookup_or :: "'r tool_env \<Rightarrow> (string \<times> string) list \<Rightarrow> string \<Rightarrow> string \<Rightarrow> string" where
  "lookup_or env table key fallback =
     (case map_of table key of
        Some e \<Rightarrow> if e \<noteq> [] then e else fallback
      | None \<Rightarrow> (case inherited env key of Some printed \<Rightarrow> printed | None \<Rightarrow> fallback))"

text \<open>\<^verbatim>\<open>Array.prototype.join\<close>\<close>

fun join :: "string \<Rightarrow> string list \<Rightarrow> string" where
  "join sep [] = []"
| "join sep [x] = x"
| "join sep (x # y # ys) = x @ sep @ join sep (y # ys)"

text \<open>The decimal text of a non-negative integer, as a template literal prints it.\<close>

definition digit :: "nat \<Rightarrow> char" where
  "digit d = ''0123456789'' ! d"

fun show_nat :: "nat \<Rightarrow> string" where
  "show_nat n = (if n < 10 then [digit n] else show_nat (n div 10) @ [digit (n mod 10)])"

declare show_nat.simps [simp del]

text \<open>Reading a decimal text back: the number a reader of the note sees.\<close>

definition digit_value :: "char \<Rightarrow> nat" where
  "digit_value c = of_char c - 48"

definition read_nat :: "string \<Rightarrow> nat" where
  "read_nat s = foldl (\<lambda>acc c. 10 * acc + digit_value c) 0 s"

text \<open>
  \<^verbatim>\<open>result.transcription.segments.slice(0, 20).map(s => `\`${s.start.toFixed(1)}s\u2013${
  s.end.toFixed(1)}s\` ${s.text}`).join('\n')\<close>, with the separator of the version.
\<close>

definition segmentLine :: "glyphs \<Rightarrow> 'r tool_env \<Rightarrow> segment \<Rightarrow> string" where
  "segmentLine g env s =
     ''`'' @ toFixed env 1 (seg_start s) @ ''s'' @ en_dash g @ toFixed env 1 (seg_end s) @ ''s` '' @
     seg_text s"

definition segmentLines :: "glyphs \<Rightarrow> 'r tool_env \<Rightarrow> voice_result \<Rightarrow> string" where
  "segmentLines g env result =
     join nl (map (segmentLine g env) (take 20 (segments (transcription result))))"

text \<open>
  \<^verbatim>\<open>${result.transcription.segments.length > 20 ? `\n_...and ${
  result.transcription.segments.length - 20} more segments_` : ''}\<close>
\<close>

definition moreSegments :: "voice_result \<Rightarrow> string" where
  "moreSegments result =
     (if length (segments (transcription result)) > 20
      then nl @ ''_...and '' @ show_nat (length (segments (transcription result)) - 20) @
           '' more segments_''
      else [])"

definition detected_or_clear :: "glyphs \<Rightarrow> bool \<Rightarrow> string" where
  "detected_or_clear g b = (if b then warning_sign g @ '' Detected'' else check_mark g @ '' Clear'')"

text \<open>\<^verbatim>\<open>(x * 100).toFixed(0)\<close>, the product being that of two doubles.\<close>

definition percent :: "'r tool_env \<Rightarrow> real \<Rightarrow> string" where
  "percent env x = toFixed env 0 (multiply env x 100)"

definition analysisLines :: "glyphs \<Rightarrow> 'r tool_env \<Rightarrow> voice_result \<Rightarrow> string list" where
  "analysisLines g env result =
     (case bullying (analysis result) of
        None \<Rightarrow> []
      | Some b \<Rightarrow>
          [''**Bullying:** '' @ detected_or_clear g (is_bullying b) @ '' ('' @
           percent env (bullying_risk_score b) @ ''%)'']) @
     (case unsafe_content (analysis result) of
        None \<Rightarrow> []
      | Some u \<Rightarrow>
          [''**Unsafe:** '' @ detected_or_clear g (unsafe u) @ '' ('' @
           percent env (unsafe_risk_score u) @ ''%)'']) @
     (case grooming (analysis result) of
        None \<Rightarrow> []
      | Some gr \<Rightarrow>
          [''**Grooming:** '' @
           (if grooming_risk gr \<noteq> ''none'' then warning_sign g @ '' '' @ grooming_risk gr
            else check_mark g @ '' Clear'') @
           '' ('' @ percent env (grooming_risk_score gr) @ ''%)'']) @
     (case emotions (analysis result) of
        None \<Rightarrow> []
      | Some e \<Rightarrow>
          [''**Emotions:** '' @ join '', '' (dominant_emotions e) @ '' ('' @
           lookup_or env (trendEmoji g) (trend e) [] @ '' '' @ trend e @ '')''])"

text \<open>The whole template, line by line as in the source.\<close>

definition voice_text :: "glyphs \<Rightarrow> 'r tool_env \<Rightarrow> voice_result \<Rightarrow> string" where
  "voice_text g env result =
     ''## '' @ microphone g @ '' Voice Analysis'' @ nl @
     nl @
     ''**Overall Severity:** '' @
       lookup_or env (severityEmoji g) (overall_severity result) (check_mark g) @
       '' '' @ overall_severity result @ nl @
     ''**Overall Risk Score:** '' @ percent env (overall_risk_score result) @ ''%'' @ nl @
     ''**Language:** '' @ language (transcription result) @ nl @
     ''**Duration:** '' @ toFixed env 1 (duration (transcription result)) @ ''s'' @ nl @
     nl @
     ''### Transcript'' @ nl @
     tr_text (transcription result) @ nl @
     nl @
     ''### Timestamped Segments'' @ nl @
     segmentLines g env result @ moreSegments result @ nl @
     nl @
     ''### Analysis Results'' @ nl @
     join nl (analysisLines g env result)"

section \<open>Dispatch\<close>

record tool_result =
  content :: "string list"
  isError :: bool

type_synonym call_log = "(string \<times> jsvalue list \<times> thrown option) list"

text \<open>
  The body of the \<^verbatim>\<open>try\<close> block: the \<^verbatim>\<open>switch\<close> over the tool name. The result is what the
  block returns (\<open>Inr\<close>) or throws (\<open>Inl\<close>), with the log of the calls made to the client:
  the method, the arguments, and what the call threw, if it did.
\<close>

definition dispatch :: "'r tool_env \<Rightarrow> string \<Rightarrow> arguments \<Rightarrow> (thrown + tool_result) \<times> call_log" where
  "dispatch env name args =
     (case client_call env name args of
        None \<Rightarrow> (Inr \<lparr>content = [''Unknown tool: '' @ name], isError = True\<rparr>, [])
      | Some (Inl e) \<Rightarrow> (Inl e, [])
      | Some (Inr (m, ps)) \<Rightarrow>
          if name = ''analyze_voice'' then
            (case analyzeVoice env ps of
               Inl e \<Rightarrow> (Inl e, [(m, ps, Some e)])
             | Inr result \<Rightarrow>
                 (Inr \<lparr>content = [voice_text glyphs_v2 env result], isError = False\<rparr>,
                  [(m, ps, None)]))
          else
            (case client env m ps of
               Inl e \<Rightarrow> (Inl e, [(m, ps, Some e)])
             | Inr result \<Rightarrow>
                 (case render env name args result of
                    Inl e \<Rightarrow> (Inl e, [(m, ps, None)])
                  | Inr rendered \<Rightarrow>
                      (Inr \<lparr>content = [rendered], isError = False\<rparr>, [(m, ps, None)]))))"

text \<open>
  The handler: \<^verbatim>\<open>const { name, arguments: args = {} } = request.params; try { switch ... }
  catch (error) { const message = error instanceof Error ? error.message : 'Unknown error';
  return { content: [{ type: 'text', text: `Error: ${message}` }], isError: true }; }\<close>
\<close>

definition callTool :: "'r tool_env \<Rightarrow> string \<Rightarrow> arguments option \<Rightarrow> tool_result \<times> call_log" where
  "callTool env name arguments =
     (let args = (case arguments of None \<Rightarrow> [] | Some a \<Rightarrow> a)
      in case dispatch env name args of
           (Inr r, calls) \<Rightarrow> (r, calls)
         | (Inl e, calls) \<Rightarrow> (\<lparr>content = [''Error: '' @ message e], isError = True\<rparr>, calls))"

text \<open>
  The \<^verbatim>\<open>analyze_voice\<close> handler registered by \<^verbatim>\<open>registerMediaTools\<close> (src/tools/media.ts),
  called by the SDK with arguments already checked against the schema: it returns the
  structured content and the text, or throws.
\<close>

record voice_tool_result =
  structuredContent :: voice_result
  text_content :: "string list"

definition optional :: "('a \<Rightarrow> jsvalue) \<Rightarrow> 'a option \<Rightarrow> jsvalue" where
  "optional f v = (case v of None \<Rightarrow> JUndefined | Some x \<Rightarrow> f x)"

definition analyze_voice_handler ::
  "'r tool_env \<Rightarrow> string \<Rightarrow> string option \<Rightarrow> real option \<Rightarrow> string option
     \<Rightarrow> thrown + voice_tool_result" where
  "analyze_voice_handler env file_path analysis_type child_age lang =
     (case readFileSync env (JStr file_path) of
        Inl e \<Rightarrow> Inl e
      | Inr buffer \<Rightarrow>
          (case analyzeVoice env
                  [JObj [(''file'', JBuffer buffer),
                         (''filename'', JStr (filenameFromPath file_path)),
                         (''analysisType'',
                          JStr (if truthy analysis_type then the analysis_type else ''all'')),
                         (''language'', optional JStr lang),
                         (''childAge'', optional JNum child_age)]] of
             Inl e \<Rightarrow> Inl e
           | Inr result \<Rightarrow>
               Inr \<lparr>structuredContent = result,
                    text_content = [voice_text glyphs_v3 env result]\<rparr>))"

section \<open>Sample surroundings\<close>

text \<open>
  Concrete surroundings at which the dispatcher is evaluated: a client that answers every
  call, one whose every call fails, a file system with and without the file, a number
  format that prints the whole part of a number with one zero decimal, exact multiplication,
  no inherited property, and a fixed rendering.
\<close>

definition answering_client :: "string \<Rightarrow> jsvalue list \<Rightarrow> thrown + unit" where
  "answering_client m ps = Inr ()"

definition failing_client :: "string \<Rightarrow> jsvalue list \<Rightarrow> thrown + unit" where
  "failing_client m ps = Inl (ErrorObject ''Request timed out'')"

definition failing_voice :: "jsvalue list \<Rightarrow> thrown + voice_result" where
  "failing_voice ps = Inl (ErrorObject ''Request timed out'')"

definition missing_file :: "jsvalue \<Rightarrow> thrown + string" where
  "missing_file p = Inl (ErrorObject ''ENOENT: no such file or directory'')"

definition one_decimal :: "nat \<Rightarrow> real \<Rightarrow> string" where
  "one_decimal d x = show_nat (nat \<lfloor>x\<rfloor>) @ ''.0''"

definition exact_times :: "real \<Rightarrow> real \<Rightarrow> real" where
  "exact_times x y = x * y"

definition no_inherited :: "string \<Rightarrow> string option" where
  "no_inherited key = None"

definition plain_render :: "string \<Rightarrow> arguments \<Rightarrow> unit \<Rightarrow> thrown + string" where
  "plain_render name args r = Inr ''report''"

definition sample_env :: "unit tool_env" where
  "sample_env =
     \<lparr>client = answering_client, analyzeVoice = failing_voice, readFileSync = missing_file,
      typeError = ErrorObject ''TypeError'', toFixed = one_decimal, multiply = exact_times,
      inherited = no_inherited, render = plain_render\<rparr>"

text \<open>
  A client that answers \<^verbatim>\<open>analyzeVoice\<close> with a transcription of a given number of
  segments, and a file system that has the file.
\<close>

definition sample_segment :: "nat \<Rightarrow> segment" where
  "sample_segment i = \<lparr>seg_start = real i, seg_end = real i + 1, seg_text = ''segment '' @ show_nat i\<rparr>"

definition sample_voice_result :: "nat \<Rightarrow> voice_result" where
  "sample_voice_result n =
     \<lparr>overall_severity = ''low'', overall_risk_score = 0,
      transcription = \<lparr>tr_text = ''words'', language = ''en'', duration = real n,
                       segments = map sample_segment [0..<n]\<rparr>,
      analysis = \<lparr>bullying = None, unsafe_content = None, grooming = None, emotions = None\<rparr>\<rparr>"

definition answering_voice :: "nat \<Rightarrow> jsvalue list \<Rightarrow> thrown + voice_result" where
  "answering_voice n ps = Inr (sample_voice_result n)"

definition present_file :: "jsvalue \<Rightarrow> thrown + string" where
  "present_file p = Inr ''RIFF''"

definition voice_env :: "nat \<Rightarrow> unit tool_env" where
  "voice_env n = sample_env\<lparr>analyzeVoice := answering_voice n, readFileSync := present_file\<rparr>"

section \<open>Properties of the registry\<close>

lemma map_of_transports_set:
  "map_of (transports_set m k v) = (map_of m)(k \<mapsto> v)"
  by (induction m) auto

lemma keys_transports_set:
  "fst ` set (transports_set m k v) = insert k (fst ` set m)"
  by (simp add: dom_map_of_conv_image_fst [symmetric] map_of_transports_set)

lemma values_transports_set:
  "\<forall>e\<in>set m. P (snd e) \<Longrightarrow> P v \<Longrightarrow> \<forall>e\<in>set (transports_set m k v). P (snd e)"
  by (induction m) (fastforce split: if_splits)+

lemma distinct_transports_set:
  "distinct (map fst m) \<Longrightarrow> distinct (map fst (transports_set m k v))"
proof (induction m)
  case Nil
  then show ?case by simp
next
  case (Cons e m)
  then show ?case
    using keys_transports_set [of m k v] by (cases e) auto
qed

lemma map_of_transports_delete:
  "map_of (transports_delete m k) k' = (if k' = k then None else map_of m k')"
  unfolding transports_delete_def by (induction m) auto

lemma keys_transports_delete:
  "fst ` set (transports_delete m k) = fst ` set m - {k}"
  unfolding transports_delete_def by auto

lemma distinct_transports_delete:
  "distinct (map fst m) \<Longrightarrow> distinct (map fst (transports_delete m k))"
  unfolding transports_delete_def by (simp add: distinct_map_filter)

lemma has_iff_key: "transports_has m k \<longleftrightarrow> k \<in> fst ` set m"
  unfolding transports_has_def by (simp add: map_of_eq_None_iff)


lemma keys_onclose: "fst ` set (onclose t m) \<subseteq> fst ` set m"
  unfolding onclose_def by (auto split: option.splits simp: keys_transports_delete)

lemma values_onclose:
  "\<forall>e\<in>set m. P (snd e) \<Longrightarrow> \<forall>e\<in>set (onclose t m). P (snd e)"
  unfolding onclose_def transports_delete_def by (auto split: option.splits)

lemma distinct_onclose: "distinct (map fst m) \<Longrightarrow> distinct (map fst (onclose t m))"
  unfolding onclose_def by (auto split: option.splits simp: distinct_transports_delete)

lemma keys_fire: "fst ` set (fire t c m) \<subseteq> fst ` set m \<union> set (issued_ids [c])"
  using keys_onclose [of t m]
  by (cases c) (auto simp: onsessioninitialized_def keys_transports_set)

lemma values_fire:
  "\<forall>e\<in>set m. P (snd e) \<Longrightarrow> P t \<Longrightarrow> \<forall>e\<in>set (fire t c m). P (snd e)"
  using values_onclose [of m P t] values_transports_set [of m P t]
  by (cases c) (auto simp: onsessioninitialized_def)

lemma distinct_fire: "distinct (map fst m) \<Longrightarrow> distinct (map fst (fire t c m))"
  by (cases c) (simp_all add: onsessioninitialized_def distinct_transports_set distinct_onclose)

lemma issued_ids_Cons: "set (issued_ids (c # cs)) = set (issued_ids [c]) \<union> set (issued_ids cs)"
  by (cases c) auto

lemma keys_fire_all:
  "fst ` set (fire_all t cs m) \<subseteq> fst ` set m \<union> set (issued_ids cs)"
proof (induction cs arbitrary: m)
  case Nil
  then show ?case by simp
next
  case (Cons c cs)
  have "fst ` set (fire_all t cs (fire t c m)) \<subseteq> fst ` set (fire t c m) \<union> set (issued_ids cs)"
    by (rule Cons.IH)
  also have "\<dots> \<subseteq> (fst ` set m \<union> set (issued_ids [c])) \<union> set (issued_ids cs)"
    using keys_fire [of t c m] by blast
  finally show ?case
    unfolding issued_ids_Cons [of c cs] by auto
qed

lemma values_fire_all:
  "\<forall>e\<in>set m. P (snd e) \<Longrightarrow> P t \<Longrightarrow> \<forall>e\<in>set (fire_all t cs m). P (snd e)"
proof (induction cs arbitrary: m)
  case Nil
  then show ?case by simp
next
  case (Cons c cs)
  have "\<forall>e\<in>set (fire t c m). P (snd e)"
    using Cons.prems by (rule values_fire)
  then have "\<forall>e\<in>set (fire_all t cs (fire t c m)). P (snd e)"
    using Cons.prems(2) by (rule Cons.IH)
  then show ?case by simp
qed

lemma distinct_fire_all:
  "distinct (map fst m) \<Longrightarrow> distinct (map fst (fire_all t cs m))"
  by (induction cs arbitrary: m) (simp_all add: distinct_fire)

lemma map_of_fire_all:
  "TransportClosed \<notin> set cs \<Longrightarrow>
   map_of (fire_all t cs m) sid = (if sid \<in> set (issued_ids cs) then Some t else map_of m sid)"
proof (induction cs arbitrary: m)
  case Nil
  then show ?case by simp
next
  case (Cons c cs)
  then show ?case
    by (cases c) (auto simp: onsessioninitialized_def map_of_transports_set)
qed

lemma issued_mem: "sid \<in> set (issued_ids cs) \<longleftrightarrow> SessionInitialized sid \<in> set cs"
  by (induction cs rule: issued_ids.induct) auto


lemma route_state: "fst (mcp_route st req env) = fst (createHttpHandler st req env)"
  unfolding mcp_route_def by (auto split: prod.splits option.splits)

lemma handler_keys:
  "fst ` set (transports (fst (createHttpHandler st req env)))
     \<subseteq> fst ` set (transports st) \<union> set (issued_ids (callbacks (handleRequest env)))"
  using keys_fire_all [of _ "callbacks (handleRequest env)" "transports st"]
  unfolding createHttpHandler_def transport_handleRequest_def Let_def
  by (auto split: option.splits simp: keys_transports_delete)

lemma registry_ok_iff:
  "registry_ok st \<longleftrightarrow>
     distinct (map fst (transports st)) \<and> (\<forall>e\<in>set (transports st). snd e < constructed st)"
  unfolding registry_ok_def by (auto simp: list_all_iff)

lemma get_in_values: "transports_get m k = Some t \<Longrightarrow> (k, t) \<in> set m"
  unfolding transports_get_def by (rule map_of_SomeD)

lemma call_ok:
  assumes "distinct (map fst (transports st))" "\<forall>e\<in>set (transports st). snd e < n"
    and "t < n" "n = constructed st"
  shows "registry_ok (fst (transport_handleRequest t b st res))"
  using assms(1,4) values_fire_all [of "transports st" "\<lambda>u. u < n" t "callbacks b", OF assms(2,3)]
  unfolding transport_handleRequest_def registry_ok_iff
  by (simp add: distinct_fire_all)

lemma handler_ok:
  assumes "registry_ok st"
  shows "registry_ok (fst (createHttpHandler st req env))"
proof -
  have d: "distinct (map fst (transports st))"
    and v: "\<forall>e\<in>set (transports st). snd e < constructed st"
    using assms unfolding registry_ok_iff by auto
  show ?thesis
  proof (cases "httpMethod req = ''POST''")
    case True
    show ?thesis
    proof (cases "connectRejects env")
      case None
      have "registry_ok (fst (transport_handleRequest (constructed st) (handleRequest env)
              (st\<lparr>constructed := Suc (constructed st)\<rparr>) fresh_response))"
        using d v by (intro call_ok [where n = "Suc (constructed st)"]) (auto simp: less_Suc_eq)
      then show ?thesis using True None unfolding createHttpHandler_def by simp
    next
      case (Some e)
      then show ?thesis using True d v
        unfolding createHttpHandler_def registry_ok_iff by auto
    qed
  next
    case notpost: False
    show ?thesis
    proof (cases "httpMethod req = ''GET''")
      case True
      show ?thesis
      proof (cases "\<not> truthy (mcpSessionId req) \<or> \<not> transports_has (transports st) (the (mcpSessionId req))")
        case True
        then show ?thesis using notpost \<open>httpMethod req = ''GET''\<close> assms
          unfolding createHttpHandler_def by auto
      next
        case False
        then obtain t where t: "transports_get (transports st) (the (mcpSessionId req)) = Some t"
          unfolding transports_has_def transports_get_def by auto
        then have "t < constructed st" using v get_in_values by fastforce
        then have "registry_ok (fst (transport_handleRequest t (handleRequest env) st fresh_response))"
          using d v by (intro call_ok [where n = "constructed st"]) auto
        then show ?thesis using notpost \<open>httpMethod req = ''GET''\<close> False t
          unfolding createHttpHandler_def by auto
      qed
    next
      case notget: False
      show ?thesis
      proof (cases "httpMethod req = ''DELETE''")
        case True
        show ?thesis
        proof (cases "truthy (mcpSessionId req) \<and> transports_has (transports st) (the (mcpSessionId req))")
          case False
          then show ?thesis using notpost notget True assms
            unfolding createHttpHandler_def by auto
        next
          case known: True
          then obtain t where t: "transports_get (transports st) (the (mcpSessionId req)) = Some t"
            unfolding transports_has_def transports_get_def by auto
          then have "t < constructed st" using v get_in_values by fastforce
          then have ok: "registry_ok (fst (transport_handleRequest t (handleRequest env) st fresh_response))"
            using d v by (intro call_ok [where n = "constructed st"]) auto
          obtain st' res r where c: "transport_handleRequest t (handleRequest env) st fresh_response = (st', res, r)"
            by (cases "transport_handleRequest t (handleRequest env) st fresh_response") auto
          have ok': "registry_ok st'" using ok c by simp
          have "registry_ok (st'\<lparr>transports := transports_delete (transports st') (the (mcpSessionId req))\<rparr>)"
            using ok' unfolding registry_ok_iff
            by (auto simp: distinct_transports_delete) (auto simp: transports_delete_def)
          then show ?thesis using notpost notget True known t c ok'
            unfolding createHttpHandler_def by (cases r) auto
        qed
      next
        case False
        then show ?thesis using notpost notget assms
          unfolding createHttpHandler_def by auto
      qed
    qed
  qed
qed

lemma run_append: "run st (xs @ ys) = run (run st xs) ys"
  by (induction xs arbitrary: st) auto

lemma run_ok: "registry_ok st \<Longrightarrow> registry_ok (run st tr)"
  by (induction tr arbitrary: st) (auto simp: route_state handler_ok)

lemma initial_ok: "registry_ok initial_state"
  unfolding registry_ok_def initial_state_def by simp

lemma issued_Cons:
  "set (issued (x # xs)) = set (issued_ids (callbacks (handleRequest (snd x)))) \<union> set (issued xs)"
  unfolding issued_def by simp

lemma run_keys:
  "fst ` set (transports (run st tr)) \<subseteq> fst ` set (transports st) \<union> set (issued tr)"
proof (induction tr arbitrary: st)
  case Nil
  then show ?case by simp
next
  case (Cons x xs)
  have "fst ` set (transports (run st (x # xs)))
          \<subseteq> fst ` set (transports (fst (createHttpHandler st (fst x) (snd x)))) \<union> set (issued xs)"
    using Cons.IH [of "fst (mcp_route st (fst x) (snd x))"] by (simp add: route_state)
  then show ?case
    using handler_keys [of st "fst x" "snd x"] unfolding issued_Cons by blast
qed


lemma get_unknown_400:
  assumes "httpMethod req = ''GET''" "mcpSessionId req = Some sid" "\<not> transports_has (transports st) sid"
  shows "mcp_route st req env = (st, status_json 400 ''Invalid or missing session ID'' fresh_response)"
  using assms unfolding mcp_route_def createHttpHandler_def by simp

lemma delete_unknown_400:
  assumes "httpMethod req = ''DELETE''" "mcpSessionId req = Some sid" "\<not> transports_has (transports st) sid"
  shows "mcp_route st req env = (st, status_json 400 ''Invalid or missing session ID'' fresh_response)"
  using assms unfolding mcp_route_def createHttpHandler_def by simp

lemma delete_removes:
  assumes "httpMethod req = ''DELETE''" "mcpSessionId req = Some sid" "sid \<noteq> []"
    and "rejects (handleRequest env) = None"
  shows "\<not> transports_has (transports (fst (mcp_route st req env))) sid"
proof (cases "transports_has (transports st) sid")
  case False
  then show ?thesis using delete_unknown_400 [OF assms(1,2) False] by simp
next
  case True
  then show ?thesis
    using assms unfolding route_state
    unfolding createHttpHandler_def transport_handleRequest_def truthy_def
    by (simp add: transports_has_def map_of_transports_delete)
qed

lemma run_not_issued:
  assumes "\<not> transports_has (transports st) sid" "sid \<notin> set (issued tr)"
  shows "\<not> transports_has (transports (run st tr)) sid"
  using assms run_keys [of st tr] unfolding has_iff_key by blast

lemma issued_append: "set (issued (xs @ ys)) = set (issued xs) \<union> set (issued ys)"
  unfolding issued_def by simp



lemma transports_set_fresh:
  "k \<notin> fst ` set m \<Longrightarrow> transports_set m k v = m @ [(k, v)]"
  by (induction m) auto

lemma post_state:
  assumes "httpMethod req = ''POST''"
  shows "fst (mcp_route st req env)
           = (case connectRejects env of
                Some err \<Rightarrow> st\<lparr>constructed := Suc (constructed st)\<rparr>
              | None \<Rightarrow>
                  st\<lparr>transports := fire_all (constructed st) (callbacks (handleRequest env))
                                      (transports st),
                     constructed := Suc (constructed st)\<rparr>)"
  using assms unfolding route_state createHttpHandler_def transport_handleRequest_def
  by (simp split: option.splits)

section \<open>Claims about the HTTP binding\<close>

text \<open>
  C2. A GET request whose session identifier was never issued in the run so far, or for which
  a DELETE was handled without fault and which was not issued again afterwards, is answered
  with status 400, and the handler state (the registry and every entry in it) is exactly
  what it was before the request.
\<close>

theorem get_unknown_session_rejected:
  assumes "st = run initial_state tr"
    and "httpMethod req = ''GET''"
    and "mcpSessionId req = Some sid"
    and "sid \<notin> set (issued tr) \<or>
         (tr = pre @ (dreq, denv) # post \<and> httpMethod dreq = ''DELETE'' \<and>
          mcpSessionId dreq = Some sid \<and> sid \<noteq> [] \<and> rejects (handleRequest denv) = None \<and>
          sid \<notin> set (issued post))"
  shows "mcp_route st req env =
           (st, \<lparr>headersSent = True, statusCode = 400, payload = ''Invalid or missing session ID''\<rparr>)"
proof -
  have "\<not> transports_has (transports st) sid"
    using assms(4)
  proof
    assume "sid \<notin> set (issued tr)"
    then show ?thesis
      using run_not_issued [of initial_state sid tr] assms(1)
      by (simp add: initial_state_def transports_has_def)
  next
    assume c: "tr = pre @ (dreq, denv) # post \<and> httpMethod dreq = ''DELETE'' \<and>
          mcpSessionId dreq = Some sid \<and> sid \<noteq> [] \<and> rejects (handleRequest denv) = None \<and>
          sid \<notin> set (issued post)"
    let ?s1 = "run initial_state pre"
    let ?s2 = "fst (mcp_route ?s1 dreq denv)"
    have "\<not> transports_has (transports ?s2) sid"
      using c by (intro delete_removes) auto
    then have "\<not> transports_has (transports (run ?s2 post)) sid"
      using c by (intro run_not_issued) auto
    moreover have "st = run ?s2 post"
      using c assms(1) by (simp add: run_append)
    ultimately show ?thesis by simp
  qed
  then show ?thesis
    using get_unknown_400 [OF assms(2,3)] by (simp add: status_json_def fresh_response_def)
qed


theorem get_unknown_session_rejected_witness:
  "mcp_route
     (run initial_state
        [(\<lparr>httpMethod = ''POST'', mcpSessionId = None, reqBody = ''initialize''\<rparr>,
          \<lparr>connectRejects = None,
           handleRequest = \<lparr>callbacks = [SessionInitialized ''s1''], responds = Some (200, ''ok''), rejects = None\<rparr>\<rparr>),
         (\<lparr>httpMethod = ''DELETE'', mcpSessionId = Some ''s1'', reqBody = ''''\<rparr>,
          \<lparr>connectRejects = None,
           handleRequest = \<lparr>callbacks = [TransportClosed], responds = Some (200, ''''), rejects = None\<rparr>\<rparr>)])
     \<lparr>httpMethod = ''GET'', mcpSessionId = Some ''s1'', reqBody = ''''\<rparr>
     \<lparr>connectRejects = None,
      handleRequest = \<lparr>callbacks = [], responds = Some (200, ''stream''), rejects = None\<rparr>\<rparr>
   = (\<lparr>transports = [], constructed = 1\<rparr>,
      \<lparr>headersSent = True, statusCode = 400, payload = ''Invalid or missing session ID''\<rparr>)"
proof -
  let ?p = "(\<lparr>httpMethod = ''POST'', mcpSessionId = None, reqBody = ''initialize''\<rparr>,
          \<lparr>connectRejects = None,
           handleRequest = \<lparr>callbacks = [SessionInitialized ''s1''], responds = Some (200, ''ok''), rejects = None\<rparr>\<rparr>)"
  let ?d = "\<lparr>httpMethod = ''DELETE'', mcpSessionId = Some ''s1'', reqBody = ''''\<rparr>"
  let ?e = "\<lparr>connectRejects = None,
           handleRequest = \<lparr>callbacks = [TransportClosed], responds = Some (200, ''''), rejects = None\<rparr>\<rparr>"
  have r: "run initial_state [?p, (?d, ?e)] = \<lparr>transports = [], constructed = 1\<rparr>"
    by (simp add: initial_state_def mcp_route_def createHttpHandler_def transport_handleRequest_def
        truthy_def transports_has_def transports_get_def transports_delete_def
        onsessioninitialized_def onclose_def fresh_response_def)
  show ?thesis
    using get_unknown_session_rejected
      [of "run initial_state [?p, (?d, ?e)]" "[?p, (?d, ?e)]"
          "\<lparr>httpMethod = ''GET'', mcpSessionId = Some ''s1'', reqBody = ''''\<rparr>" "''s1''"
          "[?p]" ?d ?e "[]"
          "\<lparr>connectRejects = None,
            handleRequest = \<lparr>callbacks = [], responds = Some (200, ''stream''), rejects = None\<rparr>\<rparr>"]
    unfolding r by (simp add: issued_def)
qed


text \<open>
  C3 (as amended). A DELETE request carrying a known, non-empty session identifier, whose
  handling by the transport completes without a fault, removes the identifier from the
  registry; after any further requests that do not issue the identifier again, a GET or a
  DELETE carrying it is answered with status 400 and changes nothing, so a second close is
  rejected.
\<close>

theorem delete_closes_session:
  assumes "httpMethod req = ''DELETE''"
    and "mcpSessionId req = Some sid"
    and "sid \<noteq> []"
    and "transports_has (transports st) sid"
    and "rejects (handleRequest env) = None"
    and "sid \<notin> set (issued later)"
    and "httpMethod req2 = ''GET'' \<or> httpMethod req2 = ''DELETE''"
    and "mcpSessionId req2 = Some sid"
    and "st2 = run (fst (mcp_route st req env)) later"
  shows "\<not> transports_has (transports (fst (mcp_route st req env))) sid \<and>
         mcp_route st2 req2 env2 =
           (st2, \<lparr>headersSent = True, statusCode = 400, payload = ''Invalid or missing session ID''\<rparr>)"
proof -
  have gone: "\<not> transports_has (transports (fst (mcp_route st req env))) sid"
    using assms(1,2,3,5) by (rule delete_removes)
  then have "\<not> transports_has (transports st2) sid"
    using assms(6,9) run_not_issued by simp
  then have "mcp_route st2 req2 env2 =
               (st2, status_json 400 ''Invalid or missing session ID'' fresh_response)"
    using assms(7,8) get_unknown_400 delete_unknown_400 by blast
  then show ?thesis
    using gone by (simp add: status_json_def fresh_response_def)
qed

theorem delete_closes_session_witness:
  "transports_has (transports \<lparr>transports = [(''s1'', 0), (''s2'', 1)], constructed = 2\<rparr>) ''s1'' \<and>
   \<not> transports_has
       (transports (fst (mcp_route \<lparr>transports = [(''s1'', 0), (''s2'', 1)], constructed = 2\<rparr>
          \<lparr>httpMethod = ''DELETE'', mcpSessionId = Some ''s1'', reqBody = ''''\<rparr>
          \<lparr>connectRejects = None,
           handleRequest = \<lparr>callbacks = [TransportClosed], responds = Some (200, ''''), rejects = None\<rparr>\<rparr>)))
       ''s1'' \<and>
   mcp_route \<lparr>transports = [(''s2'', 1)], constructed = 2\<rparr>
       \<lparr>httpMethod = ''DELETE'', mcpSessionId = Some ''s1'', reqBody = ''''\<rparr>
       \<lparr>connectRejects = None,
        handleRequest = \<lparr>callbacks = [TransportClosed], responds = Some (200, ''''), rejects = None\<rparr>\<rparr>
     = (\<lparr>transports = [(''s2'', 1)], constructed = 2\<rparr>,
        \<lparr>headersSent = True, statusCode = 400, payload = ''Invalid or missing session ID''\<rparr>)"
proof -
  let ?st = "\<lparr>transports = [(''s1'', 0), (''s2'', 1)], constructed = 2\<rparr>"
  let ?d = "\<lparr>httpMethod = ''DELETE'', mcpSessionId = Some ''s1'', reqBody = ''''\<rparr>"
  let ?e = "\<lparr>connectRejects = None,
           handleRequest = \<lparr>callbacks = [TransportClosed], responds = Some (200, ''''), rejects = None\<rparr>\<rparr>"
  have h: "transports_has (transports ?st) ''s1''"
    by (simp add: transports_has_def)
  have r: "fst (mcp_route ?st ?d ?e) = \<lparr>transports = [(''s2'', 1)], constructed = 2\<rparr>"
    by (simp add: mcp_route_def createHttpHandler_def transport_handleRequest_def
        truthy_def transports_has_def transports_get_def transports_delete_def
        onclose_def fresh_response_def)
  show ?thesis
    using h delete_closes_session [of ?d "''s1''" ?st ?e "[]" ?d "run (fst (mcp_route ?st ?d ?e)) []" ?e]
    unfolding r by (simp add: issued_def)
qed

text \<open>
  C3 as stated fails when the transport's handling of the DELETE rejects: the statement
  \<^verbatim>\<open>transports.delete(sessionId)\<close> after the \<^verbatim>\<open>await\<close> is skipped, the session stays registered
  and the route answers 500.
\<close>

theorem delete_fault_keeps_session:
  "run initial_state
     [(\<lparr>httpMethod = ''POST'', mcpSessionId = None, reqBody = ''initialize''\<rparr>,
       \<lparr>connectRejects = None,
        handleRequest = \<lparr>callbacks = [SessionInitialized ''s1''], responds = Some (200, ''ok''), rejects = None\<rparr>\<rparr>)]
     = \<lparr>transports = [(''s1'', 0)], constructed = 1\<rparr> \<and>
   transports_has (transports \<lparr>transports = [(''s1'', 0)], constructed = 1\<rparr>) ''s1'' \<and>
   mcp_route \<lparr>transports = [(''s1'', 0)], constructed = 1\<rparr>
       \<lparr>httpMethod = ''DELETE'', mcpSessionId = Some ''s1'', reqBody = ''''\<rparr>
       \<lparr>connectRejects = None,
        handleRequest = \<lparr>callbacks = [], responds = None, rejects = Some ''write failed''\<rparr>\<rparr>
     = (\<lparr>transports = [(''s1'', 0)], constructed = 1\<rparr>,
        \<lparr>headersSent = True, statusCode = 500, payload = ''Internal server error''\<rparr>)"
  by (simp add: initial_state_def mcp_route_def createHttpHandler_def transport_handleRequest_def
      onsessioninitialized_def truthy_def transports_has_def transports_get_def status_json_def
      fresh_response_def)


text \<open>
  C1 (as amended). Every POST request without a session header makes the handler construct a
  new transport, one that is not in the registry. When the server connects and the transport
  reports the session initialized with the generated identifier (and does not close), the new
  transport is registered under that identifier. When that identifier is freshly generated,
  that is, distinct from every identifier issued before in the run, it is the identifier of
  no registered session and the registry afterwards is the registry before with this one
  entry added, so every session registered before stays registered under its own identifier.
  When the connection is refused or the transport reports no initialization, nothing is
  registered. In every state reached from the empty registry no two entries of the registry
  share an identifier.
\<close>

theorem post_registers_initialized_session:
  assumes "st = run initial_state tr"
    and "httpMethod req = ''POST''"
    and "mcpSessionId req = None"
    and "st' = fst (mcp_route st req env)"
  shows "constructed st' = Suc (constructed st) \<and>
         constructed st \<notin> snd ` set (transports st) \<and>
         (connectRejects env = None \<and>
          SessionInitialized sid \<in> set (callbacks (handleRequest env)) \<and>
          TransportClosed \<notin> set (callbacks (handleRequest env)) \<longrightarrow>
            transports_get (transports st') sid = Some (constructed st)) \<and>
         (connectRejects env = None \<and>
          callbacks (handleRequest env) = [SessionInitialized sid] \<and>
          sid \<notin> set (issued tr) \<longrightarrow>
            \<not> transports_has (transports st) sid \<and>
            transports st' = transports st @ [(sid, constructed st)]) \<and>
         (connectRejects env \<noteq> None \<or> callbacks (handleRequest env) = [] \<longrightarrow>
            transports st' = transports st) \<and>
         distinct (map fst (transports st)) \<and>
         distinct (map fst (transports st'))"
proof -
  have ok: "registry_ok st"
    using assms(1) initial_ok run_ok by simp
  have ok': "registry_ok st'"
    using ok assms(4) by (simp add: route_state handler_ok)
  note st' = post_state [OF assms(2), of st env, folded assms(4)]
  have a: "constructed st' = Suc (constructed st)"
    unfolding st' by (simp split: option.splits)
  have b: "constructed st \<notin> snd ` set (transports st)"
    using ok unfolding registry_ok_iff by auto
  have c: "transports_get (transports st') sid = Some (constructed st)"
    if "connectRejects env = None \<and>
        SessionInitialized sid \<in> set (callbacks (handleRequest env)) \<and>
        TransportClosed \<notin> set (callbacks (handleRequest env))"
    using that unfolding st' transports_get_def
    by (simp add: map_of_fire_all issued_mem)
  have d: "\<not> transports_has (transports st) sid \<and>
           transports st' = transports st @ [(sid, constructed st)]"
    if h: "connectRejects env = None \<and>
        callbacks (handleRequest env) = [SessionInitialized sid] \<and> sid \<notin> set (issued tr)"
  proof -
    have fresh: "\<not> transports_has (transports st) sid"
      using h run_not_issued [of initial_state sid tr] assms(1)
      by (simp add: initial_state_def transports_has_def)
    then have "sid \<notin> fst ` set (transports st)"
      by (simp add: has_iff_key)
    then have "transports st' = transports st @ [(sid, constructed st)]"
      using h unfolding st'
      by (simp add: onsessioninitialized_def transports_set_fresh)
    then show ?thesis using fresh by simp
  qed
  have e: "transports st' = transports st"
    if "connectRejects env \<noteq> None \<or> callbacks (handleRequest env) = []"
    using that unfolding st' by (auto split: option.splits)
  have f: "distinct (map fst (transports st)) \<and> distinct (map fst (transports st'))"
    using ok ok' unfolding registry_ok_iff by simp
  show ?thesis
    using a b c d e f by blast
qed

theorem post_registers_initialized_session_witness:
  "fst (mcp_route
          (run initial_state
             [(\<lparr>httpMethod = ''POST'', mcpSessionId = None, reqBody = ''initialize''\<rparr>,
               \<lparr>connectRejects = None,
                handleRequest = \<lparr>callbacks = [SessionInitialized ''s1''], responds = Some (200, ''ok''), rejects = None\<rparr>\<rparr>)])
          \<lparr>httpMethod = ''POST'', mcpSessionId = None, reqBody = ''initialize''\<rparr>
          \<lparr>connectRejects = None,
           handleRequest = \<lparr>callbacks = [SessionInitialized ''s2''], responds = Some (200, ''ok''), rejects = None\<rparr>\<rparr>)
     = \<lparr>transports = [(''s1'', 0), (''s2'', 1)], constructed = 2\<rparr> \<and>
   fst (mcp_route
          (run initial_state
             [(\<lparr>httpMethod = ''POST'', mcpSessionId = None, reqBody = ''initialize''\<rparr>,
               \<lparr>connectRejects = None,
                handleRequest = \<lparr>callbacks = [SessionInitialized ''s1''], responds = Some (200, ''ok''), rejects = None\<rparr>\<rparr>)])
          \<lparr>httpMethod = ''POST'', mcpSessionId = None, reqBody = ''tools/list''\<rparr>
          \<lparr>connectRejects = None,
           handleRequest = \<lparr>callbacks = [], responds = Some (400, ''Bad Request''), rejects = None\<rparr>\<rparr>)
     = \<lparr>transports = [(''s1'', 0)], constructed = 2\<rparr>"
proof -
  let ?r = "\<lparr>httpMethod = ''POST'', mcpSessionId = None, reqBody = ''initialize''\<rparr>"
  let ?q = "\<lparr>httpMethod = ''POST'', mcpSessionId = None, reqBody = ''tools/list''\<rparr>"
  let ?e1 = "\<lparr>connectRejects = None,
              handleRequest = \<lparr>callbacks = [SessionInitialized ''s1''], responds = Some (200, ''ok''), rejects = None\<rparr>\<rparr>"
  let ?e2 = "\<lparr>connectRejects = None,
              handleRequest = \<lparr>callbacks = [SessionInitialized ''s2''], responds = Some (200, ''ok''), rejects = None\<rparr>\<rparr>"
  let ?e0 = "\<lparr>connectRejects = None,
              handleRequest = \<lparr>callbacks = [], responds = Some (400, ''Bad Request''), rejects = None\<rparr>\<rparr>"
  let ?st = "\<lparr>transports = [(''s1'', 0)], constructed = 1\<rparr>"
  have r: "run initial_state [(?r, ?e1)] = ?st"
    by (simp add: initial_state_def mcp_route_def createHttpHandler_def transport_handleRequest_def
        onsessioninitialized_def)
  have i: "''s2'' \<notin> set (issued [(?r, ?e1)])"
    by (simp add: issued_def)
  have eq: "s = \<lparr>transports = t, constructed = c\<rparr>"
    if "transports s = t" "constructed s = c" for s :: handler_state and t c
    using that by (cases s) simp
  have a: "fst (mcp_route ?st ?r ?e2) = \<lparr>transports = [(''s1'', 0), (''s2'', 1)], constructed = 2\<rparr>"
    using post_registers_initialized_session
      [OF r [symmetric], of ?r "fst (mcp_route ?st ?r ?e2)" ?e2 "''s2''"] i
    by (intro eq) simp_all
  have b: "fst (mcp_route ?st ?q ?e0) = \<lparr>transports = [(''s1'', 0)], constructed = 2\<rparr>"
    using post_registers_initialized_session
      [OF r [symmetric], of ?q "fst (mcp_route ?st ?q ?e0)" ?e0 "''s2''"]
    by (intro eq) simp_all
  show ?thesis
    unfolding r using a b by simp
qed

text \<open>
  C1 as stated fails for a POST without a session header that the transport does not treat as
  an initialization: \<^verbatim>\<open>transports.set\<close> is called only from \<^verbatim>\<open>onsessioninitialized\<close>, so
  nothing is registered. Nor does the handler compare a generated identifier with the
  registry: were the generator to return an identifier a second time, \<^verbatim>\<open>transports.set\<close>
  would replace the entry of the earlier session.
\<close>

theorem post_without_initialization_registers_nothing:
  "mcp_route initial_state
     \<lparr>httpMethod = ''POST'', mcpSessionId = None, reqBody = ''tools/list''\<rparr>
     \<lparr>connectRejects = None,
      handleRequest = \<lparr>callbacks = [], responds = Some (400, ''Bad Request''), rejects = None\<rparr>\<rparr>
   = (\<lparr>transports = [], constructed = 1\<rparr>,
      \<lparr>headersSent = True, statusCode = 400, payload = ''Bad Request''\<rparr>) \<and>
   run initial_state
     [(\<lparr>httpMethod = ''POST'', mcpSessionId = None, reqBody = ''initialize''\<rparr>,
       \<lparr>connectRejects = None,
        handleRequest = \<lparr>callbacks = [SessionInitialized ''s1''], responds = Some (200, ''ok''), rejects = None\<rparr>\<rparr>),
      (\<lparr>httpMethod = ''POST'', mcpSessionId = None, reqBody = ''initialize''\<rparr>,
       \<lparr>connectRejects = None,
        handleRequest = \<lparr>callbacks = [SessionInitialized ''s1''], responds = Some (200, ''ok''), rejects = None\<rparr>\<rparr>)]
     = \<lparr>transports = [(''s1'', 1)], constructed = 2\<rparr>"
  by (simp add: initial_state_def mcp_route_def createHttpHandler_def transport_handleRequest_def
      onsessioninitialized_def)

text \<open>
  C7 (as amended). When the handler's promise rejects, the route answers with status 500 if no
  response headers have been sent yet; if headers were already sent it writes nothing more and
  the response stays as it was. In both cases the response has been started.
\<close>

theorem route_fault_response:
  assumes "createHttpHandler st req env = (st', res, Some err)"
  shows "mcp_route st req env =
           (st', if headersSent res then res
                 else res\<lparr>headersSent := True, statusCode := 500, payload := ''Internal server error''\<rparr>) \<and>
         headersSent (snd (mcp_route st req env))"
  using assms unfolding mcp_route_def status_json_def by simp

theorem route_fault_response_witness:
  "createHttpHandler initial_state
     \<lparr>httpMethod = ''POST'', mcpSessionId = None, reqBody = ''initialize''\<rparr>
     \<lparr>connectRejects = Some ''Already connected'',
      handleRequest = \<lparr>callbacks = [], responds = None, rejects = None\<rparr>\<rparr>
     = (\<lparr>transports = [], constructed = 1\<rparr>, fresh_response, Some ''Already connected'') \<and>
   mcp_route initial_state
     \<lparr>httpMethod = ''POST'', mcpSessionId = None, reqBody = ''initialize''\<rparr>
     \<lparr>connectRejects = Some ''Already connected'',
      handleRequest = \<lparr>callbacks = [], responds = None, rejects = None\<rparr>\<rparr>
     = (\<lparr>transports = [], constructed = 1\<rparr>,
        \<lparr>headersSent = True, statusCode = 500, payload = ''Internal server error''\<rparr>)"
proof -
  let ?r = "\<lparr>httpMethod = ''POST'', mcpSessionId = None, reqBody = ''initialize''\<rparr>"
  let ?e = "\<lparr>connectRejects = Some ''Already connected'',
      handleRequest = \<lparr>callbacks = [], responds = None, rejects = None\<rparr>\<rparr>"
  have h: "createHttpHandler initial_state ?r ?e
             = (\<lparr>transports = [], constructed = 1\<rparr>, fresh_response, Some ''Already connected'')"
    by (simp add: initial_state_def createHttpHandler_def)
  show ?thesis
    using h route_fault_response [OF h] by (simp add: fresh_response_def)
qed

text \<open>
  C7 as stated fails when the transport has already started the response before the fault:
  the guard \<^verbatim>\<open>if (!res.headersSent)\<close> skips the 500 and the status already sent remains.
\<close>

theorem route_fault_after_headers_sent:
  "createHttpHandler \<lparr>transports = [(''s1'', 0)], constructed = 1\<rparr>
     \<lparr>httpMethod = ''GET'', mcpSessionId = Some ''s1'', reqBody = ''''\<rparr>
     \<lparr>connectRejects = None,
      handleRequest = \<lparr>callbacks = [], responds = Some (200, ''event stream''),
                       rejects = Some ''stream failed''\<rparr>\<rparr>
     = (\<lparr>transports = [(''s1'', 0)], constructed = 1\<rparr>,
        \<lparr>headersSent = True, statusCode = 200, payload = ''event stream''\<rparr>,
        Some ''stream failed'') \<and>
   mcp_route \<lparr>transports = [(''s1'', 0)], constructed = 1\<rparr>
     \<lparr>httpMethod = ''GET'', mcpSessionId = Some ''s1'', reqBody = ''''\<rparr>
     \<lparr>connectRejects = None,
      handleRequest = \<lparr>callbacks = [], responds = Some (200, ''event stream''),
                       rejects = Some ''stream failed''\<rparr>\<rparr>
     = (\<lparr>transports = [(''s1'', 0)], constructed = 1\<rparr>,
        \<lparr>headersSent = True, statusCode = 200, payload = ''event stream''\<rparr>)"
  by (simp add: mcp_route_def createHttpHandler_def transport_handleRequest_def
      truthy_def transports_has_def transports_get_def)

section \<open>Claims about start-up\<close>

text \<open>
  C8. When \<^verbatim>\<open>TUTELIQ_API_KEY\<close> is absent (or empty, which \<^verbatim>\<open>!apiKey\<close> treats alike), each entry
  point logs the error and calls \<^verbatim>\<open>process.exit(1)\<close> as its last action, with a non-zero code
  and without having connected a transport or started to listen. When the credential is
  present, start-up goes on: the client is built from the key, the server is created and the
  stdio transport is connected or the HTTP port is opened.
\<close>

theorem missing_credential_exits:
  "(TUTELIQ_API_KEY env = None \<or> TUTELIQ_API_KEY env = Some [] \<longrightarrow>
      index_v2 env connectError = [ConsoleError required_message, ProcessExit 1] \<and>
      server_ts env connectError = [ConsoleError required_message, ProcessExit 1] \<and>
      (getTransportMode env = ''stdio'' \<longrightarrow>
         index_v3 env connectError = [ConsoleError required_message, ProcessExit 1]) \<and>
      \<not> list_ex serves (index_v2 env connectError) \<and>
      \<not> list_ex serves (server_ts env connectError) \<and>
      \<not> list_ex serves (index_v3 env connectError)) \<and>
   (TUTELIQ_API_KEY env = Some k \<and> k \<noteq> [] \<longrightarrow>
      take 3 (index_v2 env connectError) = [NewTuteliq k, NewServer ''2.1.0'', ConnectStdio] \<and>
      take 3 (server_ts env connectError) = [NewTuteliq k, NewServer ''3.0.0'', RegisterTools] \<and>
      list_ex serves (server_ts env connectError) \<and>
      (getTransportMode env \<noteq> ''stdio'' \<longrightarrow>
         server_ts env connectError
           = [NewTuteliq k, NewServer ''3.0.0'', RegisterTools,
              Listen (if truthy (PORT env) then the (PORT env) else ''3001'')]) \<and>
      (getTransportMode env = ''stdio'' \<longrightarrow>
         take 4 (index_v3 env connectError)
           = [NewTuteliq k, NewServer ''3.0.0'', RegisterTools, ConnectStdio]))"
  unfolding index_v2_def index_v3_def server_ts_def createServer_def
  by (auto simp: Let_def truthy_def split: option.splits)

theorem missing_credential_exits_witness:
  "index_v2 \<lparr>TUTELIQ_API_KEY = None, TUTELIQ_MCP_TRANSPORT = Some ''STDIO'', PORT = None\<rparr> None
     = [ConsoleError required_message, ProcessExit 1] \<and>
   index_v3 \<lparr>TUTELIQ_API_KEY = None, TUTELIQ_MCP_TRANSPORT = Some ''STDIO'', PORT = None\<rparr> None
     = [ConsoleError required_message, ProcessExit 1] \<and>
   server_ts \<lparr>TUTELIQ_API_KEY = None, TUTELIQ_MCP_TRANSPORT = Some ''STDIO'', PORT = None\<rparr> None
     = [ConsoleError required_message, ProcessExit 1] \<and>
   server_ts \<lparr>TUTELIQ_API_KEY = Some ''key-123'', TUTELIQ_MCP_TRANSPORT = None, PORT = Some ''8080''\<rparr> None
     = [NewTuteliq ''key-123'', NewServer ''3.0.0'', RegisterTools, Listen ''8080''] \<and>
   take 4 (index_v3 \<lparr>TUTELIQ_API_KEY = Some ''key-123'', TUTELIQ_MCP_TRANSPORT = Some ''STDIO'', PORT = Some ''8080''\<rparr> None)
     = [NewTuteliq ''key-123'', NewServer ''3.0.0'', RegisterTools, ConnectStdio]"
proof -
  have m: "getTransportMode \<lparr>TUTELIQ_API_KEY = a, TUTELIQ_MCP_TRANSPORT = Some ''STDIO'', PORT = p\<rparr> = ''stdio''"
    for a p
    by (simp add: getTransportMode_def toLowerCase_def)
  have h: "getTransportMode \<lparr>TUTELIQ_API_KEY = a, TUTELIQ_MCP_TRANSPORT = None, PORT = p\<rparr> = ''http''"
    for a p
    by (simp add: getTransportMode_def)
  show ?thesis
    using missing_credential_exits
        [of "\<lparr>TUTELIQ_API_KEY = None, TUTELIQ_MCP_TRANSPORT = Some ''STDIO'', PORT = None\<rparr>" None]
      missing_credential_exits
        [of "\<lparr>TUTELIQ_API_KEY = Some ''key-123'', TUTELIQ_MCP_TRANSPORT = Some ''STDIO'', PORT = Some ''8080''\<rparr>"
            None "''key-123''"]
      missing_credential_exits
        [of "\<lparr>TUTELIQ_API_KEY = Some ''key-123'', TUTELIQ_MCP_TRANSPORT = None, PORT = Some ''8080''\<rparr>"
            None "''key-123''"]
    by (simp add: m h truthy_def)
qed

section \<open>Properties of the dispatcher\<close>


lemma client_call_unknown:
  assumes "name \<notin> set (map fst tools)"
  shows "client_call env name args = None"
  using assms unfolding tools_def client_call_def by simp

lemma client_call_known:
  assumes "name \<in> set (map fst tools)"
  shows "client_call env name args \<noteq> None"
  using assms unfolding tools_def client_call_def by auto











lemma digit_value_digit: "d < 10 \<Longrightarrow> digit_value (digit d) = d"
proof -
  assume "d < 10"
  then have "d \<in> {0, 1, 2, 3, 4, 5, 6, 7, 8, 9}" by auto
  then show ?thesis
    by (auto simp: digit_def digit_value_def)
qed

lemma read_nat_snoc: "read_nat (s @ [c]) = 10 * read_nat s + digit_value c"
  by (simp add: read_nat_def)

lemma read_show_nat: "read_nat (show_nat n) = n"
proof (induction n rule: show_nat.induct)
  case (1 n)
  show ?case
  proof (cases "n < 10")
    case True
    then show ?thesis
      by (simp add: show_nat.simps [of n] read_nat_def digit_value_digit)
  next
    case False
    then have "read_nat (show_nat n) = 10 * read_nat (show_nat (n div 10)) + digit_value (digit (n mod 10))"
      by (simp add: show_nat.simps [of n] read_nat_snoc)
    also have "\<dots> = 10 * (n div 10) + n mod 10"
      using 1 False by (simp add: digit_value_digit)
    finally show ?thesis by simp
  qed
qed

lemma callTool_voice_success:
  assumes "callTool env ''analyze_voice'' arguments = (res, calls)" "\<not> isError res"
  shows "\<exists>m ps result. calls = [(m, ps, None)] \<and> analyzeVoice env ps = Inr result \<and>
           content res = [voice_text glyphs_v2 env result]"
  using assms unfolding callTool_def dispatch_def
  by (auto simp: Let_def split: option.splits sum.splits prod.splits)

lemma handler_voice_success:
  assumes "analyze_voice_handler env file_path analysis_type child_age lang = Inr out"
  shows "text_content out = [voice_text glyphs_v3 env (structuredContent out)]"
  using assms unfolding analyze_voice_handler_def
  by (auto split: sum.splits)


lemma join_concat:
  "join sep xs = (if xs = [] then [] else concat (map (\<lambda>l. l @ sep) (butlast xs)) @ last xs)"
  by (induction sep xs rule: join.induct) auto

lemma voice_text_sections:
  "voice_text g env result
     = (''## '' @ microphone g @ '' Voice Analysis'' @ nl @ nl @
        ''**Overall Severity:** '' @
          lookup_or env (severityEmoji g) (overall_severity result) (check_mark g) @
          '' '' @ overall_severity result @ nl @
        ''**Overall Risk Score:** '' @ percent env (overall_risk_score result) @ ''%'' @ nl @
        ''**Language:** '' @ language (transcription result) @ nl @
        ''**Duration:** '' @ toFixed env 1 (duration (transcription result)) @ ''s'' @ nl @ nl @
        ''### Transcript'' @ nl @ tr_text (transcription result) @ nl @ nl) @
       ''### Timestamped Segments'' @ [CHR 0x0A] @
       segmentLines g env result @ moreSegments result @
       [CHR 0x0A, CHR 0x0A] @ ''### Analysis Results'' @ [CHR 0x0A] @
       join nl (analysisLines g env result)"
  by (simp add: voice_text_def nl_def)

section \<open>Claims about the tool dispatcher\<close>

text \<open>
  C5. A tool invocation whose name is not in the \<^verbatim>\<open>tools\<close> array reaches the \<^verbatim>\<open>default\<close> branch:
  the \<^verbatim>\<open>try\<close> block returns (it does not throw) the error-flagged result whose text names the
  unknown tool, no call to the client is made, and the handler returns that result, so nothing
  escapes to the server and the connection it serves.
\<close>

theorem unknown_tool_error:
  assumes "name \<notin> set (map fst tools)"
  shows "dispatch env name args
           = (Inr \<lparr>content = [''Unknown tool: '' @ name], isError = True\<rparr>, []) \<and>
         callTool env name arguments
           = (\<lparr>content = [''Unknown tool: '' @ name], isError = True\<rparr>, [])"
  by (simp add: client_call_unknown [OF assms] callTool_def dispatch_def)

theorem unknown_tool_error_witness:
  "''delete_everything'' \<notin> set (map fst tools) \<and>
   callTool sample_env ''delete_everything'' None
     = (\<lparr>content = [''Unknown tool: delete_everything''], isError = True\<rparr>, [])"
proof -
  have h: "''delete_everything'' \<notin> set (map fst tools)"
    by (simp add: tools_def)
  show ?thesis
    using h unknown_tool_error [OF h, of sample_env "[]" None] by simp
qed

text \<open>
  C6. When the call to the external client made for a tool invocation throws, the handler
  returns, through its normal return path, the error-flagged result whose text is
  \<^verbatim>\<open>Error: \<close> followed by the message of the thrown error (\<^verbatim>\<open>Unknown error\<close> for a thrown
  value that is not an \<^verbatim>\<open>Error\<close>); that call is the only one made. This holds for the call
  each \<^verbatim>\<open>case\<close> makes, and for every call that the log of an invocation records as thrown.
\<close>

theorem client_error_reported:
  "(client_call env name args = Some (Inr (m, ps)) \<and>
      (if name = ''analyze_voice'' then analyzeVoice env ps = Inl e else client env m ps = Inl e) \<longrightarrow>
      callTool env name (Some args)
        = (\<lparr>content = [''Error: '' @ message e], isError = True\<rparr>, [(m, ps, Some e)])) \<and>
   ((m', ps', Some e') \<in> set (snd (callTool env name arguments)) \<longrightarrow>
      callTool env name arguments
        = (\<lparr>content = [''Error: '' @ message e'], isError = True\<rparr>, [(m', ps', Some e')])) \<and>
   message (ErrorObject msg) = msg \<and>
   message OtherValue = ''Unknown error''"
proof (intro conjI impI)
  assume "client_call env name args = Some (Inr (m, ps)) \<and>
      (if name = ''analyze_voice'' then analyzeVoice env ps = Inl e else client env m ps = Inl e)"
  then show "callTool env name (Some args)
        = (\<lparr>content = [''Error: '' @ message e], isError = True\<rparr>, [(m, ps, Some e)])"
    unfolding callTool_def dispatch_def by (auto split: if_splits)
next
  assume "(m', ps', Some e') \<in> set (snd (callTool env name arguments))"
  then show "callTool env name arguments
        = (\<lparr>content = [''Error: '' @ message e'], isError = True\<rparr>, [(m', ps', Some e')])"
    unfolding callTool_def dispatch_def
    by (auto simp: Let_def split: option.splits sum.splits prod.splits if_splits)
qed simp_all

theorem client_error_reported_witness:
  "client_call (sample_env\<lparr>client := failing_client\<rparr>) ''detect_bullying''
       [(''content'', JStr ''you are stupid'')]
     = Some (Inr (''detectBullying'',
                  [JObj [(''content'', JStr ''you are stupid''), (''context'', JUndefined)]])) \<and>
   failing_client ''detectBullying''
       [JObj [(''content'', JStr ''you are stupid''), (''context'', JUndefined)]]
     = Inl (ErrorObject ''Request timed out'') \<and>
   callTool (sample_env\<lparr>client := failing_client\<rparr>) ''detect_bullying''
       (Some [(''content'', JStr ''you are stupid'')])
     = (\<lparr>content = [''Error: Request timed out''], isError = True\<rparr>,
        [(''detectBullying'',
          [JObj [(''content'', JStr ''you are stupid''), (''context'', JUndefined)]],
          Some (ErrorObject ''Request timed out''))])"
proof -
  let ?env = "sample_env\<lparr>client := failing_client\<rparr>"
  let ?args = "[(''content'', JStr ''you are stupid'')]"
  let ?ps = "[JObj [(''content'', JStr ''you are stupid''), (''context'', JUndefined)]]"
  have c: "client_call ?env ''detect_bullying'' ?args = Some (Inr (''detectBullying'', ?ps))"
    by (simp add: client_call_def object_of_def arg_def)
  have f: "client ?env ''detectBullying'' ?ps = Inl (ErrorObject ''Request timed out'')"
    by (simp add: failing_client_def)
  have r: "callTool ?env ''detect_bullying'' (Some ?args)
             = (\<lparr>content = [''Error: Request timed out''], isError = True\<rparr>,
                [(''detectBullying'', ?ps, Some (ErrorObject ''Request timed out''))])"
    using c f
      client_error_reported
        [where env = ?env and name = "''detect_bullying''" and args = ?args
           and m = "''detectBullying''" and ps = ?ps and e = "ErrorObject ''Request timed out''",
         THEN conjunct1]
    by simp
  have "(''detectBullying'', ?ps, Some (ErrorObject ''Request timed out''))
          \<in> set (snd (callTool ?env ''detect_bullying'' (Some ?args)))"
    unfolding r by simp
  then show ?thesis
    using c r
      client_error_reported
        [where env = ?env and name = "''detect_bullying''"
           and arguments = "Some ?args" and m' = "''detectBullying''" and ps' = ?ps
           and e' = "ErrorObject ''Request timed out''", THEN conjunct2, THEN conjunct1]
    by (simp add: failing_client_def)
qed




section \<open>Claims about the voice analysis text\<close>

text \<open>
  C10. Every \<^verbatim>\<open>analyze_voice\<close> invocation that succeeds answers with the rendered text of the
  client's result: the stdio dispatcher with the characters of its own template, the
  registered handler with those of its own. In either text the heading
  \<^verbatim>\<open>### Timestamped Segments\<close> is followed by one line for each of the first 20 segments and
  for no other, the lines separated by newlines: the line at each position shows, between
  backquotes, the start and the end of the segment at that position of the transcription,
  each printed with one decimal and followed by \<^verbatim>\<open>s\<close>, the version's dash between them, and
  then the text of that segment. When there are more than 20 segments the lines are followed
  by the note \<^verbatim>\<open>_...and k more segments_\<close> on a line of its own, where k, read as a decimal
  number, is the number of segments minus 20; otherwise no note follows. Then comes the
  heading of the analysis results.
\<close>

theorem analyze_voice_segment_section:
  "(callTool env ''analyze_voice'' arguments = (res, calls) \<and> \<not> isError res \<longrightarrow>
      (\<exists>m ps answer. calls = [(m, ps, None)] \<and> analyzeVoice env ps = Inr answer \<and>
         content res = [voice_text glyphs_v2 env answer])) \<and>
   (analyze_voice_handler env file_path analysis_type child_age lang = Inr out \<longrightarrow>
      text_content out = [voice_text glyphs_v3 env (structuredContent out)]) \<and>
   (\<exists>before after lines.
      voice_text g env result
        = before @ ''### Timestamped Segments'' @ [CHR 0x0A] @
          (if lines = [] then []
           else concat (map (\<lambda>l. l @ [CHR 0x0A]) (butlast lines)) @ last lines) @
          (if 20 < length (segments (transcription result))
           then [CHR 0x0A] @ ''_...and '' @
                show_nat (length (segments (transcription result)) - 20) @ '' more segments_''
           else []) @
          [CHR 0x0A, CHR 0x0A] @ ''### Analysis Results'' @ [CHR 0x0A] @ after \<and>
      length lines = min 20 (length (segments (transcription result))) \<and>
      (\<forall>i < length lines.
         lines ! i
           = ''`'' @ toFixed env 1 (seg_start (segments (transcription result) ! i)) @ ''s'' @
             en_dash g @ toFixed env 1 (seg_end (segments (transcription result) ! i)) @ ''s` '' @
             seg_text (segments (transcription result) ! i))) \<and>
   (20 < length (segments (transcription result)) \<longrightarrow>
      read_nat (show_nat (length (segments (transcription result)) - 20)) + 20
        = length (segments (transcription result))) \<and>
   en_dash glyphs_v2 = [CHR 0xE2, CHR 0x80, CHR 0x9A, CHR 0xC3, CHR 0x84, CHR 0xC3, CHR 0xAC] \<and>
   en_dash glyphs_v3 = [CHR 0xE2, CHR 0x80, CHR 0x93]"
proof (intro conjI impI)
  assume "callTool env ''analyze_voice'' arguments = (res, calls) \<and> \<not> isError res"
  then show "\<exists>m ps answer. calls = [(m, ps, None)] \<and> analyzeVoice env ps = Inr answer \<and>
         content res = [voice_text glyphs_v2 env answer]"
    using callTool_voice_success by blast
next
  assume "analyze_voice_handler env file_path analysis_type child_age lang = Inr out"
  then show "text_content out = [voice_text glyphs_v3 env (structuredContent out)]"
    by (rule handler_voice_success)
next
  let ?segs = "segments (transcription result)"
  let ?lines = "map (segmentLine g env) (take 20 ?segs)"
  have "voice_text g env result
        = (''## '' @ microphone g @ '' Voice Analysis'' @ nl @ nl @
        ''**Overall Severity:** '' @
          lookup_or env (severityEmoji g) (overall_severity result) (check_mark g) @
          '' '' @ overall_severity result @ nl @
        ''**Overall Risk Score:** '' @ percent env (overall_risk_score result) @ ''%'' @ nl @
        ''**Language:** '' @ language (transcription result) @ nl @
        ''**Duration:** '' @ toFixed env 1 (duration (transcription result)) @ ''s'' @ nl @ nl @
        ''### Transcript'' @ nl @ tr_text (transcription result) @ nl @ nl) @
          ''### Timestamped Segments'' @ [CHR 0x0A] @
          (if ?lines = [] then []
           else concat (map (\<lambda>l. l @ [CHR 0x0A]) (butlast ?lines)) @ last ?lines) @
          (if 20 < length ?segs
           then [CHR 0x0A] @ ''_...and '' @ show_nat (length ?segs - 20) @ '' more segments_''
           else []) @
          [CHR 0x0A, CHR 0x0A] @ ''### Analysis Results'' @ [CHR 0x0A] @
          join nl (analysisLines g env result)"
    unfolding voice_text_sections segmentLines_def moreSegments_def
      join_concat [of nl ?lines]
    by (simp add: nl_def)
  moreover have "length ?lines = min 20 (length ?segs)"
    by simp
  moreover have "\<forall>i < length ?lines.
         ?lines ! i
           = ''`'' @ toFixed env 1 (seg_start (?segs ! i)) @ ''s'' @
             en_dash g @ toFixed env 1 (seg_end (?segs ! i)) @ ''s` '' @ seg_text (?segs ! i)"
    by (simp add: segmentLine_def)
  ultimately show "\<exists>before after lines.
      voice_text g env result
        = before @ ''### Timestamped Segments'' @ [CHR 0x0A] @
          (if lines = [] then []
           else concat (map (\<lambda>l. l @ [CHR 0x0A]) (butlast lines)) @ last lines) @
          (if 20 < length (segments (transcription result))
           then [CHR 0x0A] @ ''_...and '' @
                show_nat (length (segments (transcription result)) - 20) @ '' more segments_''
           else []) @
          [CHR 0x0A, CHR 0x0A] @ ''### Analysis Results'' @ [CHR 0x0A] @ after \<and>
      length lines = min 20 (length (segments (transcription result))) \<and>
      (\<forall>i < length lines.
         lines ! i
           = ''`'' @ toFixed env 1 (seg_start (segments (transcription result) ! i)) @ ''s'' @
             en_dash g @ toFixed env 1 (seg_end (segments (transcription result) ! i)) @ ''s` '' @
             seg_text (segments (transcription result) ! i))"
    by blast
next
  assume "20 < length (segments (transcription result))"
  then show "read_nat (show_nat (length (segments (transcription result)) - 20)) + 20
        = length (segments (transcription result))"
    by (simp add: read_show_nat)
qed (simp_all add: glyphs_v2_def glyphs_v3_def)


theorem analyze_voice_segment_section_witness:
  "callTool (voice_env 23) ''analyze_voice'' (Some [(''file_path'', JStr ''/tmp/call.wav'')])
     = (\<lparr>content = [voice_text glyphs_v2 (voice_env 23) (sample_voice_result 23)],
         isError = False\<rparr>,
        [(''analyzeVoice'',
          [JObj [(''file'', JBuffer ''RIFF''), (''filename'', JStr ''call.wav''),
                 (''analysisType'', JStr ''all''), (''language'', JUndefined),
                 (''childAge'', JUndefined)]],
          None)]) \<and>
   analyze_voice_handler (voice_env 23) ''/tmp/call.wav'' None None None
     = Inr \<lparr>structuredContent = sample_voice_result 23,
            text_content = [voice_text glyphs_v3 (voice_env 23) (sample_voice_result 23)]\<rparr> \<and>
   (\<exists>before after lines.
      voice_text glyphs_v3 (voice_env 23) (sample_voice_result 23)
        = before @ ''### Timestamped Segments'' @ [CHR 0x0A] @
          concat (map (\<lambda>l. l @ [CHR 0x0A]) (butlast lines)) @ last lines @
          [CHR 0x0A] @ ''_...and 3 more segments_'' @
          [CHR 0x0A, CHR 0x0A] @ ''### Analysis Results'' @ [CHR 0x0A] @ after \<and>
      length lines = 20 \<and>
      lines ! 0 = ''`0.0s'' @ [CHR 0xE2, CHR 0x80, CHR 0x93] @ ''1.0s` segment 0'' \<and>
      lines ! 7 = ''`7.0s'' @ [CHR 0xE2, CHR 0x80, CHR 0x93] @ ''8.0s` segment 7'' \<and>
      lines ! 19 = ''`19.0s'' @ [CHR 0xE2, CHR 0x80, CHR 0x93] @ ''20.0s` segment 19'')"
proof -
  let ?env = "voice_env 23"
  let ?args = "Some [(''file_path'', JStr ''/tmp/call.wav'')]"
  let ?r = "sample_voice_result 23"
  have c: "callTool ?env ''analyze_voice'' ?args
     = (\<lparr>content = [voice_text glyphs_v2 ?env ?r], isError = False\<rparr>,
        [(''analyzeVoice'',
          [JObj [(''file'', JBuffer ''RIFF''), (''filename'', JStr ''call.wav''),
                 (''analysisType'', JStr ''all''), (''language'', JUndefined),
                 (''childAge'', JUndefined)]],
          None)])"
    by (simp add: callTool_def dispatch_def client_call_def read_file_def arg_def js_or_def
        filenameFromPath_def voice_env_def sample_env_def present_file_def answering_voice_def)
  have h: "analyze_voice_handler ?env ''/tmp/call.wav'' None None None
     = Inr \<lparr>structuredContent = ?r, text_content = [voice_text glyphs_v3 ?env ?r]\<rparr>"
    by (simp add: analyze_voice_handler_def optional_def truthy_def
        filenameFromPath_def voice_env_def sample_env_def present_file_def answering_voice_def)
  have n: "length (segments (transcription ?r)) = 23"
    by (simp add: sample_voice_result_def)
  have s: "i < 23 \<Longrightarrow> segments (transcription ?r) ! i = sample_segment i" for i
    by (simp add: sample_voice_result_def)
  have f: "toFixed ?env = one_decimal"
    by (simp add: voice_env_def sample_env_def)
  have k: "show_nat 3 = ''3''"
    by (simp add: show_nat.simps digit_def)
  note inst = analyze_voice_segment_section
      [where env = ?env and arguments = ?args
         and res = "fst (callTool ?env ''analyze_voice'' ?args)"
         and calls = "snd (callTool ?env ''analyze_voice'' ?args)"
         and file_path = "''/tmp/call.wav''" and analysis_type = None and child_age = None
         and lang = None
         and out = "\<lparr>structuredContent = ?r, text_content = [voice_text glyphs_v3 ?env ?r]\<rparr>"
         and g = glyphs_v3 and result = ?r]
  from inst obtain before after lines where
    t: "voice_text glyphs_v3 ?env ?r
        = before @ ''### Timestamped Segments'' @ [CHR 0x0A] @
          (if lines = [] then []
           else concat (map (\<lambda>l. l @ [CHR 0x0A]) (butlast lines)) @ last lines) @
          (if 20 < length (segments (transcription ?r))
           then [CHR 0x0A] @ ''_...and '' @
                show_nat (length (segments (transcription ?r)) - 20) @ '' more segments_''
           else []) @
          [CHR 0x0A, CHR 0x0A] @ ''### Analysis Results'' @ [CHR 0x0A] @ after"
    and l: "length lines = min 20 (length (segments (transcription ?r)))"
    and e: "\<forall>i < length lines.
         lines ! i
           = ''`'' @ toFixed ?env 1 (seg_start (segments (transcription ?r) ! i)) @ ''s'' @
             en_dash glyphs_v3 @ toFixed ?env 1 (seg_end (segments (transcription ?r) ! i)) @
             ''s` '' @ seg_text (segments (transcription ?r) ! i)"
    by blast
  have l20: "length lines = 20"
    using l n by simp
  then have ne: "lines \<noteq> []"
    by auto
  have d: "en_dash glyphs_v3 = [CHR 0xE2, CHR 0x80, CHR 0x93]"
    using inst by simp
  have l0: "lines ! 0 = ''`0.0s'' @ [CHR 0xE2, CHR 0x80, CHR 0x93] @ ''1.0s` segment 0''"
    using e l20 by (simp add: s f d sample_segment_def one_decimal_def show_nat.simps digit_def)
  have l7: "lines ! 7 = ''`7.0s'' @ [CHR 0xE2, CHR 0x80, CHR 0x93] @ ''8.0s` segment 7''"
    using e l20 by (simp add: s f d sample_segment_def one_decimal_def show_nat.simps digit_def)
  have l19: "lines ! 19 = ''`19.0s'' @ [CHR 0xE2, CHR 0x80, CHR 0x93] @ ''20.0s` segment 19''"
    using e l20 by (simp add: s f d sample_segment_def one_decimal_def show_nat.simps digit_def)
  have t': "voice_text glyphs_v3 ?env ?r
        = before @ ''### Timestamped Segments'' @ [CHR 0x0A] @
          concat (map (\<lambda>l. l @ [CHR 0x0A]) (butlast lines)) @ last lines @
          [CHR 0x0A] @ ''_...and 3 more segments_'' @
          [CHR 0x0A, CHR 0x0A] @ ''### Analysis Results'' @ [CHR 0x0A] @ after"
    using t ne by (simp add: n k)
  show ?thesis
    using c h t' l20 l0 l7 l19 by blast
qed


end
